theory Spec2Isabelle
  imports Main "HOL-Library.Sublist" "HOL-Library.Multiset"
begin

section \<open>JavaScript values used by the handlers\<close>

text \<open>
  A JavaScript number is modelled as a mathematical integer or \<open>NaN\<close>: the handlers
  only produce numbers by \<open>parseInt\<close>, integer arithmetic and \<open>Math.ceil\<close> of a
  quotient, and \<open>NaN\<close> is the one non-integer they can reach. Integers beyond
  \<open>2^53\<close>, which a double rounds, are not told apart from exact ones. Strings are
  \<open>char\<close> lists, the bytes of their UTF-8 text. The handlers are given twice: on
  query parameters that are strings or absent (\<open>undefined\<close>), which is what Express
  hands over when each parameter occurs at most once, and, for the combined-trips
  endpoint, on the values Express hands over in general, where a repeated parameter is
  an array (\<open>combined_trips_request\<close>).
\<close>

datatype jsnum = Num int | NaN

datatype js_error = ReferenceError string | TypeError string

fun truthy_num :: "jsnum \<Rightarrow> bool" where
  "truthy_num NaN = False"
| "truthy_num (Num n) = (n \<noteq> 0)"

definition truthy_str :: "string option \<Rightarrow> bool" where
  "truthy_str s = (case s of None \<Rightarrow> False | Some v \<Rightarrow> v \<noteq> [])"

text \<open>\<open>a || b\<close> on numbers.\<close>

definition num_or :: "jsnum \<Rightarrow> jsnum \<Rightarrow> jsnum" where
  "num_or a b = (if truthy_num a then a else b)"

fun Math_max :: "jsnum \<Rightarrow> jsnum \<Rightarrow> jsnum" where
  "Math_max (Num a) (Num b) = Num (max a b)"
| "Math_max _ _ = NaN"

fun Math_min :: "jsnum \<Rightarrow> jsnum \<Rightarrow> jsnum" where
  "Math_min (Num a) (Num b) = Num (min a b)"
| "Math_min _ _ = NaN"

fun num_sub :: "jsnum \<Rightarrow> jsnum \<Rightarrow> jsnum" where
  "num_sub (Num a) (Num b) = Num (a - b)"
| "num_sub _ _ = NaN"

fun num_mul :: "jsnum \<Rightarrow> jsnum \<Rightarrow> jsnum" where
  "num_mul (Num a) (Num b) = Num (a * b)"
| "num_mul _ _ = NaN"

text \<open>
  \<open>Math.ceil(a / b)\<close>: the quotient is rounded up; \<open>0 / 0\<close> and every quotient
  with a \<open>NaN\<close> operand is \<open>NaN\<close>. A non-zero number divided by zero is an infinity,
  which none of the handlers can reach with a clamped or defaulted page size; it is
  mapped to \<open>NaN\<close> here.
\<close>

fun ceil_div :: "jsnum \<Rightarrow> jsnum \<Rightarrow> jsnum" where
  "ceil_div (Num a) (Num b) = (if b = 0 then NaN else Num (- ((- a) div b)))"
| "ceil_div _ _ = NaN"

fun num_less :: "jsnum \<Rightarrow> jsnum \<Rightarrow> bool" where
  "num_less (Num a) (Num b) = (a < b)"
| "num_less _ _ = False"

subsection \<open>Strings\<close>

definition is_digit :: "char \<Rightarrow> bool" where
  "is_digit c = (48 \<le> (of_char c :: nat) \<and> (of_char c :: nat) \<le> 57)"

definition digit_val :: "char \<Rightarrow> int" where
  "digit_val c = int (of_char c) - 48"

definition is_hex_digit :: "char \<Rightarrow> bool" where
  "is_hex_digit c = (is_digit c
     \<or> (65 \<le> (of_char c :: nat) \<and> (of_char c :: nat) \<le> 70)
     \<or> (97 \<le> (of_char c :: nat) \<and> (of_char c :: nat) \<le> 102))"

definition hex_val :: "char \<Rightarrow> int" where
  "hex_val c = (if is_digit c then int (of_char c) - 48
                else if (of_char c :: nat) \<le> 70 then int (of_char c) - 55
                else int (of_char c) - 87)"

text \<open>
  White space and line terminators, which \<open>parseInt\<close> skips and the conversion of a
  string to a number trims: the six ASCII characters, and beyond ASCII U+00A0, U+1680,
  U+2000 to U+200A, U+2028, U+2029, U+202F, U+205F, U+3000 and U+FEFF by their bytes.
\<close>

definition is_ws :: "char \<Rightarrow> bool" where
  "is_ws c = ((of_char c :: nat) \<in> {9, 10, 11, 12, 13, 32})"

definition wide_ws :: "string list" where
  "wide_ws =
     [[CHR 0xC2, CHR 0xA0], [CHR 0xE1, CHR 0x9A, CHR 0x80], [CHR 0xE2, CHR 0x80, CHR 0x80],
      [CHR 0xE2, CHR 0x80, CHR 0x81], [CHR 0xE2, CHR 0x80, CHR 0x82], [CHR 0xE2, CHR 0x80, CHR 0x83],
      [CHR 0xE2, CHR 0x80, CHR 0x84], [CHR 0xE2, CHR 0x80, CHR 0x85], [CHR 0xE2, CHR 0x80, CHR 0x86],
      [CHR 0xE2, CHR 0x80, CHR 0x87], [CHR 0xE2, CHR 0x80, CHR 0x88], [CHR 0xE2, CHR 0x80, CHR 0x89],
      [CHR 0xE2, CHR 0x80, CHR 0x8A], [CHR 0xE2, CHR 0x80, CHR 0xA8], [CHR 0xE2, CHR 0x80, CHR 0xA9],
      [CHR 0xE2, CHR 0x80, CHR 0xAF], [CHR 0xE2, CHR 0x81, CHR 0x9F], [CHR 0xE3, CHR 0x80, CHR 0x80],
      [CHR 0xEF, CHR 0xBB, CHR 0xBF]]"

text \<open>How many bytes after its first the white space character takes that the string
  starts with, if it starts with one.\<close>

definition ws_prefix :: "string \<Rightarrow> nat option" where
  "ws_prefix s =
     (case s of
        [] \<Rightarrow> None
      | c # cs \<Rightarrow>
          if is_ws c then Some 0
          else map_option (\<lambda>w. length w - 1) (find (\<lambda>w. prefix w s) wide_ws))"

function skip_ws :: "string \<Rightarrow> string" where
  "skip_ws [] = []"
| "skip_ws (c # cs) =
     (case ws_prefix (c # cs) of Some n \<Rightarrow> skip_ws (drop n cs) | None \<Rightarrow> c # cs)"
  by pat_completeness auto
termination
  by (relation "measure length") auto

definition digits_value :: "int \<Rightarrow> (char \<Rightarrow> int) \<Rightarrow> string \<Rightarrow> int" where
  "digits_value radix val ds = foldl (\<lambda>a d. radix * a + val d) 0 ds"

definition parse_digits :: "int \<Rightarrow> string \<Rightarrow> jsnum" where
  "parse_digits sg s =
     (let ds = takeWhile is_digit s
      in if ds = [] then NaN else Num (sg * digits_value 10 digit_val ds))"

definition parse_hex_digits :: "int \<Rightarrow> string \<Rightarrow> jsnum" where
  "parse_hex_digits sg s =
     (let ds = takeWhile is_hex_digit s
      in if ds = [] then NaN else Num (sg * digits_value 16 hex_val ds))"

fun strip_sign :: "string \<Rightarrow> int \<times> string" where
  "strip_sign (c # cs) =
     (if c = CHR ''-'' then (- 1, cs) else if c = CHR ''+'' then (1, cs) else (1, c # cs))"
| "strip_sign [] = (1, [])"

text \<open>\<open>parseInt(s)\<close> with no radix: a \<open>0x\<close> prefix selects base sixteen.\<close>

fun parse_radixless :: "int \<Rightarrow> string \<Rightarrow> jsnum" where
  "parse_radixless sg (a # b # cs) =
     (if a = CHR ''0'' \<and> (b = CHR ''x'' \<or> b = CHR ''X'')
      then parse_hex_digits sg cs else parse_digits sg (a # b # cs))"
| "parse_radixless sg cs = parse_digits sg cs"

definition parseInt :: "string \<Rightarrow> jsnum" where
  "parseInt s = (case strip_sign (skip_ws s) of (sg, r) \<Rightarrow> parse_radixless sg r)"

text \<open>\<open>parseInt(s, 10)\<close>.\<close>

definition parseInt10 :: "string \<Rightarrow> jsnum" where
  "parseInt10 s = (case strip_sign (skip_ws s) of (sg, r) \<Rightarrow> parse_digits sg r)"

text \<open>\<open>parseInt(x)\<close> of a query parameter: \<open>undefined\<close> is read as the text
  \<open>undefined\<close>, which is not a number.\<close>

definition parseInt_param :: "string option \<Rightarrow> jsnum" where
  "parseInt_param p = (case p of None \<Rightarrow> parseInt ''undefined'' | Some s \<Rightarrow> parseInt s)"

definition digit_char :: "nat \<Rightarrow> char" where
  "digit_char d = char_of (48 + d)"

function string_of_nat :: "nat \<Rightarrow> string" where
  "string_of_nat n =
     (if n < 10 then [digit_char n] else string_of_nat (n div 10) @ [digit_char (n mod 10)])"
  by pat_completeness auto
termination
  by (relation "measure id") auto

declare string_of_nat.simps [simp del]

definition string_of_int :: "int \<Rightarrow> string" where
  "string_of_int i = (if i < 0 then CHR ''-'' # string_of_nat (nat (- i)) else string_of_nat (nat i))"

text \<open>A number inside a template literal.\<close>

fun string_of_num :: "jsnum \<Rightarrow> string" where
  "string_of_num (Num i) = string_of_int i"
| "string_of_num NaN = ''NaN''"

text \<open>\<open>s.split(c)\<close> for a one-character separator.\<close>

fun split_on :: "char \<Rightarrow> string \<Rightarrow> string list" where
  "split_on c [] = [[]]"
| "split_on c (x # xs) =
     (if x = c then [] # split_on c xs
      else (case split_on c xs of [] \<Rightarrow> [[x]] | w # ws \<Rightarrow> (x # w) # ws))"

text \<open>\<open>xs.join(sep)\<close>.\<close>

fun join :: "string \<Rightarrow> string list \<Rightarrow> string" where
  "join sep [] = []"
| "join sep [x] = x"
| "join sep (x # y # ys) = x @ sep @ join sep (y # ys)"

text \<open>
  \<open>toUpperCase\<close> and \<open>toLowerCase\<close>. A string is its UTF-8 bytes. The ASCII
  letters are mapped, and so is every character beyond ASCII whose upper or lower case
  contains an ASCII character (the long s U+017F becomes \<open>S\<close>, the sharp s
  \<open>SS\<close>, the Kelvin sign \<open>k\<close>, and so on: the two tables). The case of the
  other characters beyond ASCII is left as it is; it never yields an ASCII character,
  so whether a string equals an ASCII word after the mapping is as in JavaScript.
\<close>

definition upper_char :: "char \<Rightarrow> char" where
  "upper_char c = (if 97 \<le> (of_char c :: nat) \<and> (of_char c :: nat) \<le> 122
                   then char_of ((of_char c :: nat) - 32) else c)"

definition lower_char :: "char \<Rightarrow> char" where
  "lower_char c = (if 65 \<le> (of_char c :: nat) \<and> (of_char c :: nat) \<le> 90
                   then char_of ((of_char c :: nat) + 32) else c)"

definition upper_special :: "(string \<times> string) list" where
  "upper_special =
     [([CHR 0xC3, CHR 0x9F], [CHR ''S'', CHR ''S'']),
      ([CHR 0xC4, CHR 0xB1], [CHR ''I'']),
      ([CHR 0xC5, CHR 0x89], [CHR 0xCA, CHR 0xBC, CHR ''N'']),
      ([CHR 0xC5, CHR 0xBF], [CHR ''S'']),
      ([CHR 0xC7, CHR 0xB0], [CHR ''J'', CHR 0xCC, CHR 0x8C]),
      ([CHR 0xE1, CHR 0xBA, CHR 0x96], [CHR ''H'', CHR 0xCC, CHR 0xB1]),
      ([CHR 0xE1, CHR 0xBA, CHR 0x97], [CHR ''T'', CHR 0xCC, CHR 0x88]),
      ([CHR 0xE1, CHR 0xBA, CHR 0x98], [CHR ''W'', CHR 0xCC, CHR 0x8A]),
      ([CHR 0xE1, CHR 0xBA, CHR 0x99], [CHR ''Y'', CHR 0xCC, CHR 0x8A]),
      ([CHR 0xE1, CHR 0xBA, CHR 0x9A], [CHR ''A'', CHR 0xCA, CHR 0xBE]),
      ([CHR 0xEF, CHR 0xAC, CHR 0x80], [CHR ''F'', CHR ''F'']),
      ([CHR 0xEF, CHR 0xAC, CHR 0x81], [CHR ''F'', CHR ''I'']),
      ([CHR 0xEF, CHR 0xAC, CHR 0x82], [CHR ''F'', CHR ''L'']),
      ([CHR 0xEF, CHR 0xAC, CHR 0x83], [CHR ''F'', CHR ''F'', CHR ''I'']),
      ([CHR 0xEF, CHR 0xAC, CHR 0x84], [CHR ''F'', CHR ''F'', CHR ''L'']),
      ([CHR 0xEF, CHR 0xAC, CHR 0x85], [CHR ''S'', CHR ''T'']),
      ([CHR 0xEF, CHR 0xAC, CHR 0x86], [CHR ''S'', CHR ''T''])]"

definition lower_special :: "(string \<times> string) list" where
  "lower_special =
     [([CHR 0xC4, CHR 0xB0], [CHR ''i'', CHR 0xCC, CHR 0x87]),
      ([CHR 0xE2, CHR 0x84, CHR 0xAA], [CHR ''k''])]"

text \<open>The entry of a table that the string starts with: how many bytes follow its
  first byte, and what replaces it.\<close>

fun case_special :: "(string \<times> string) list \<Rightarrow> string \<Rightarrow> (nat \<times> string) option" where
  "case_special [] s = None"
| "case_special ((w, r) # t) s =
     (if w \<noteq> [] \<and> prefix w s then Some (length w - 1, r) else case_special t s)"

function map_case :: "(string \<times> string) list \<Rightarrow> (char \<Rightarrow> char) \<Rightarrow> string \<Rightarrow> string" where
  "map_case tbl f [] = []"
| "map_case tbl f (c # cs) =
     (case case_special tbl (c # cs) of
        Some (n, r) \<Rightarrow> r @ map_case tbl f (drop n cs)
      | None \<Rightarrow> f c # map_case tbl f cs)"
  by pat_completeness auto
termination
  by (relation "measure (\<lambda>(tbl, f, s). length s)") auto

definition toUpperCase :: "string \<Rightarrow> string" where
  "toUpperCase s = map_case upper_special upper_char s"

definition toLowerCase :: "string \<Rightarrow> string" where
  "toLowerCase s = map_case lower_special lower_char s"

section \<open>The combined-trips endpoint (server.js)\<close>

text \<open>
  \<open>req.query\<close> of \<open>GET /api/combined-trips\<close>: the twelve parameters the handler
  destructures, each a string. \<open>None\<close> is \<open>undefined\<close>. The request's parameters
  arrive as a list of name and value pairs in the order of the URL, and the handler
  reads them by name. This is the request in which every name occurs once: a name that
  the URL repeats reaches the handler as one array and not as its first value, and
  such requests are those of \<open>combined_trips_request\<close> below.
\<close>

record req_query =
  origin :: "string option"
  destination :: "string option"
  operator_name :: "string option"
  transport_type :: "string option"
  timeline :: "string option"
  start_date :: "string option"
  end_date :: "string option"
  travel_date :: "string option"
  page :: "string option"
  limit :: "string option"
  sort_by :: "string option"
  sort_order :: "string option"

definition destructure :: "(string \<times> string) list \<Rightarrow> req_query" where
  "destructure kvs =
     \<lparr>origin = map_of kvs ''origin'', destination = map_of kvs ''destination'',
      operator_name = map_of kvs ''operator_name'', transport_type = map_of kvs ''transport_type'',
      timeline = map_of kvs ''timeline'', start_date = map_of kvs ''start_date'',
      end_date = map_of kvs ''end_date'', travel_date = map_of kvs ''travel_date'',
      page = map_of kvs ''page'', limit = map_of kvs ''limit'',
      sort_by = map_of kvs ''sort_by'', sort_order = map_of kvs ''sort_order''\<rparr>"

text \<open>A destructuring default applies when the parameter is \<open>undefined\<close>.\<close>

definition default_to :: "string \<Rightarrow> string option \<Rightarrow> string" where
  "default_to d p = (case p of None \<Rightarrow> d | Some s \<Rightarrow> s)"

definition pageNum :: "req_query \<Rightarrow> jsnum" where
  "pageNum q = Math_max (Num 1) (parseInt (default_to ''1'' (page q)))"

definition limitNum :: "req_query \<Rightarrow> jsnum" where
  "limitNum q = Math_min (Num 100) (Math_max (Num 1) (parseInt (default_to ''50'' (limit q))))"

definition offset :: "req_query \<Rightarrow> jsnum" where
  "offset q = num_mul (num_sub (pageNum q) (Num 1)) (limitNum q)"

text \<open>\<open>p ? p.split(',') : []\<close>.\<close>

definition split_param :: "string option \<Rightarrow> string list" where
  "split_param p = (if truthy_str p then split_on CHR '','' (the p) else [])"

definition origins :: "req_query \<Rightarrow> string list" where
  "origins q = split_param (origin q)"

definition destinations :: "req_query \<Rightarrow> string list" where
  "destinations q = split_param (destination q)"

definition transportTypes :: "req_query \<Rightarrow> string list" where
  "transportTypes q = split_param (transport_type q)"

definition operatorNames :: "req_query \<Rightarrow> string list" where
  "operatorNames q = split_param (operator_name q)"

subsection \<open>The cache key: \<open>JSON.stringify\<close> of the parsed parameters\<close>

definition hex_char :: "nat \<Rightarrow> char" where
  "hex_char d = (if d < 10 then char_of (48 + d) else char_of (87 + d))"

definition json_escape_char :: "char \<Rightarrow> string" where
  "json_escape_char c =
     (let n = (of_char c :: nat) in
      if n = 0x22 then [CHR 0x5C, CHR 0x22]
      else if n = 0x5C then [CHR 0x5C, CHR 0x5C]
      else if n = 8 then [CHR 0x5C, CHR ''b'']
      else if n = 12 then [CHR 0x5C, CHR ''f'']
      else if n = 10 then [CHR 0x5C, CHR ''n'']
      else if n = 13 then [CHR 0x5C, CHR ''r'']
      else if n = 9 then [CHR 0x5C, CHR ''t'']
      else if n < 32 then [CHR 0x5C, CHR ''u'', CHR ''0'', CHR ''0'', hex_char (n div 16), hex_char (n mod 16)]
      else [c])"

definition json_string :: "string \<Rightarrow> string" where
  "json_string s = CHR 0x22 # concat (map json_escape_char s) @ [CHR 0x22]"

definition json_array :: "string list \<Rightarrow> string" where
  "json_array ss = ''['' @ join '','' (map json_string ss) @ '']''"

text \<open>\<open>JSON.stringify\<close> writes \<open>NaN\<close> as \<open>null\<close>.\<close>

fun json_num :: "jsnum \<Rightarrow> string" where
  "json_num (Num i) = string_of_int i"
| "json_num NaN = ''null''"

text \<open>A property whose value is \<open>undefined\<close> is left out of the object.\<close>

fun json_member :: "string \<times> string option \<Rightarrow> string list" where
  "json_member (k, None) = []"
| "json_member (k, Some v) = [json_string k @ '':'' @ v]"

definition json_object :: "(string \<times> string option) list \<Rightarrow> string" where
  "json_object ms = ''{'' @ join '','' (concat (map json_member ms)) @ ''}''"

definition cacheKey :: "req_query \<Rightarrow> string" where
  "cacheKey q = ''combined_trips_'' @ json_object
     [(''origins'', Some (json_array (origins q))),
      (''destinations'', Some (json_array (destinations q))),
      (''operatorNames'', Some (json_array (operatorNames q))),
      (''transportTypes'', Some (json_array (transportTypes q))),
      (''timeline'', map_option json_string (timeline q)),
      (''start_date'', map_option json_string (start_date q)),
      (''end_date'', map_option json_string (end_date q)),
      (''travel_date'', map_option json_string (travel_date q)),
      (''pageNum'', Some (json_num (pageNum q))),
      (''limitNum'', Some (json_num (limitNum q))),
      (''sort_by'', Some (json_string (default_to ''departure_time'' (sort_by q)))),
      (''sort_order'', Some (json_string (default_to ''ASC'' (sort_order q))))]"

subsection \<open>buildQuery\<close>

text \<open>
  What Express hands the handler for a query parameter: a string when the parameter
  occurs once, an array when it is repeated, an object when it is written with
  brackets. A bound parameter of a query is a string, a number, or such a value passed
  on as it is.
\<close>

datatype qvalue = QString string | QArray "qvalue list" | QObject "(string \<times> qvalue) list"

datatype param = PStr string | PNum jsnum | PVal qvalue

record builder =
  params :: "param list"
  conditions :: "string list"
  paramIndex :: nat

text \<open>\<open>vs.map((_, i) => `$${paramIndex + i}`).join(',')\<close>.\<close>

definition placeholders :: "nat \<Rightarrow> string list \<Rightarrow> string" where
  "placeholders i vs = join '','' (map (\<lambda>k. CHR ''$'' # string_of_nat (i + k)) [0..<length vs])"

text \<open>One of the four \<open>IN\<close> blocks; they differ in the column and the value list only.\<close>

definition add_in :: "string \<Rightarrow> string list \<Rightarrow> builder \<Rightarrow> builder" where
  "add_in column vs b =
     (if length vs > 0
      then \<lparr>params = params b @ map PStr vs,
            conditions = conditions b @ [''('' @ column @ '' IN ('' @ placeholders (paramIndex b) vs @ ''))''],
            paramIndex = paramIndex b + length vs\<rparr>
      else b)"

text \<open>An element of a destructured array; a missing one is \<open>undefined\<close>, which the
  template literal prints as such.\<close>

definition elem_or_undefined :: "string list \<Rightarrow> nat \<Rightarrow> string" where
  "elem_or_undefined xs i = (if i < length xs then xs ! i else ''undefined'')"

definition formattedDate :: "string \<Rightarrow> string" where
  "formattedDate td =
     (let parts = split_on CHR ''-'' td;
          day = elem_or_undefined parts 0;
          month = elem_or_undefined parts 1;
          year = elem_or_undefined parts 2
      in year @ ''-'' @ month @ ''-'' @ day)"

definition add_travel_date :: "string option \<Rightarrow> builder \<Rightarrow> builder" where
  "add_travel_date td b =
     (if truthy_str td
      then \<lparr>params = params b @ [PStr (formattedDate (the td))],
            conditions = conditions b @ [''DATE(travel_date) = $'' @ string_of_nat (paramIndex b)],
            paramIndex = paramIndex b + 1\<rparr>
      else b)"

definition interval :: "string \<Rightarrow> string" where
  "interval d = ''CURRENT_DATE - INTERVAL '' @ [CHR 0x27] @ d @ [CHR 0x27]"

definition date_trunc :: "string \<Rightarrow> string" where
  "date_trunc u = ''date_trunc('' @ [CHR 0x27] @ u @ [CHR 0x27] @ '', CURRENT_DATE)''"

text \<open>The \<open>switch\<close> on \<open>timeline.toLowerCase()\<close>; no \<open>default\<close> case.\<close>

definition preset_condition :: "string \<Rightarrow> string option" where
  "preset_condition l =
     (if l = ''today'' then Some ''travel_date = CURRENT_DATE''
      else if l = ''yesterday'' then Some (''travel_date = '' @ interval ''1 day'')
      else if l = ''last 7 days'' then Some (''travel_date >= '' @ interval ''7 days'')
      else if l = ''last 14 days'' then Some (''travel_date >= '' @ interval ''14 days'')
      else if l = ''last 28 days'' then Some (''travel_date >= '' @ interval ''28 days'')
      else if l = ''last 30 days'' then Some (''travel_date >= '' @ interval ''30 days'')
      else if l = ''last 90 days'' then Some (''travel_date >= '' @ interval ''90 days'')
      else if l = ''this month'' then Some (''travel_date >= '' @ date_trunc ''month'')
      else if l = ''this year'' then Some (''travel_date >= '' @ date_trunc ''year'')
      else None)"

definition timeline_condition :: "string \<Rightarrow> string option" where
  "timeline_condition t = preset_condition (toLowerCase t)"

definition add_dates :: "req_query \<Rightarrow> builder \<Rightarrow> builder" where
  "add_dates q b =
     (if truthy_str (start_date q) \<and> truthy_str (end_date q)
      then \<lparr>params = params b @ [PStr (the (start_date q)), PStr (the (end_date q))],
            conditions = conditions b
              @ [''travel_date BETWEEN $'' @ string_of_nat (paramIndex b)
                 @ '' AND $'' @ string_of_nat (paramIndex b + 1)],
            paramIndex = paramIndex b + 2\<rparr>
      else if truthy_str (timeline q)
      then (case timeline_condition (the (timeline q)) of
              Some c \<Rightarrow> b\<lparr>conditions := conditions b @ [c]\<rparr>
            | None \<Rightarrow> b)
      else b)"

definition sort_columns :: "string list" where
  "sort_columns = [''departure_time'', ''arrival_time'', ''price_inr'', ''duration_minutes'']"

definition safeSortBy :: "req_query \<Rightarrow> string" where
  "safeSortBy q =
     (if default_to ''departure_time'' (sort_by q) \<in> set sort_columns
      then default_to ''departure_time'' (sort_by q) else ''departure_time'')"

definition safeSortOrder :: "req_query \<Rightarrow> string" where
  "safeSortOrder q =
     (if toUpperCase (default_to ''ASC'' (sort_order q)) \<in> set [''ASC'', ''DESC'']
      then toUpperCase (default_to ''ASC'' (sort_order q)) else ''ASC'')"

text \<open>The builder after the filter blocks, in the order of the source.\<close>

definition filters :: "string \<Rightarrow> req_query \<Rightarrow> builder" where
  "filters tableName q =
     add_dates q
       (add_travel_date (travel_date q)
         (add_in ''operator_name'' (operatorNames q)
           (add_in ''transport_type'' (transportTypes q)
             (add_in (if tableName = ''trips'' then ''destination'' else ''to_location'') (destinations q)
               (add_in (if tableName = ''trips'' then ''origin'' else ''from_location'') (origins q)
                 \<lparr>params = [], conditions = [], paramIndex = 1\<rparr>)))))"

record built =
  query :: string
  qparams :: "param list"

text \<open>The value of \<open>query\<close> before the \<open>ORDER BY\<close> is appended.\<close>

definition select_from :: "string \<Rightarrow> builder \<Rightarrow> string" where
  "select_from tableName b =
     (let w = (if length (conditions b) > 0 then ''WHERE '' @ join '' AND '' (conditions b) else []);
          query0 = ''SELECT *, (SELECT COUNT(*) FROM '' @ tableName @ '' '' @ w
                   @ '') as total_count FROM '' @ tableName
      in if length (conditions b) > 0
         then query0 @ '' WHERE '' @ join '' AND '' (conditions b) else query0)"

definition order_by :: "req_query \<Rightarrow> string" where
  "order_by q = '' ORDER BY '' @ safeSortBy q @ '' '' @ safeSortOrder q"

definition limit_offset :: "builder \<Rightarrow> string" where
  "limit_offset b = '' LIMIT $'' @ string_of_nat (paramIndex b)
                    @ '' OFFSET $'' @ string_of_nat (paramIndex b + 1)"

definition buildQuery :: "string \<Rightarrow> req_query \<Rightarrow> built" where
  "buildQuery tableName q =
     (let b = filters tableName q
      in \<lparr>query = select_from tableName b @ order_by q @ limit_offset b,
          qparams = params b @ [PNum (limitNum q), PNum (offset q)]\<rparr>)"

subsection \<open>Rows, processResults and the response\<close>

text \<open>
  The values of the response's pagination object: numbers, booleans and strings, with
  the JavaScript operators the handler applies to them. \<open>a || b\<close> is \<open>a\<close> when
  \<open>a\<close> is truthy; \<open>a + b\<close> adds two numbers and concatenates as soon as one operand
  is a string; a division converts its operands to numbers.
\<close>

datatype jsval = VNum jsnum | VBool bool | VStr string

fun truthy :: "jsval \<Rightarrow> bool" where
  "truthy (VNum n) = truthy_num n"
| "truthy (VBool b) = b"
| "truthy (VStr s) = (s \<noteq> [])"

definition js_or :: "jsval \<Rightarrow> jsval \<Rightarrow> jsval" where
  "js_or a b = (if truthy a then a else b)"

fun num_add :: "jsnum \<Rightarrow> jsnum \<Rightarrow> jsnum" where
  "num_add (Num a) (Num b) = Num (a + b)"
| "num_add _ _ = NaN"

text \<open>
  The number a string converts to: white space is trimmed at both ends, the empty text
  is 0, and a decimal literal with an optional sign or a literal with the prefix
  \<open>0x\<close>, \<open>0o\<close> or \<open>0b\<close> is its value; leading zeros are decimal. Everything else is
  \<open>NaN\<close>. Literals with a fraction or an exponent and \<open>Infinity\<close>, which a count
  never is, have no place among the integers of this model and are \<open>NaN\<close> here too.
\<close>

fun trim_end :: "string \<Rightarrow> string" where
  "trim_end [] = []"
| "trim_end (c # cs) = (if skip_ws (c # cs) = [] then [] else c # trim_end cs)"

definition is_oct_digit :: "char \<Rightarrow> bool" where
  "is_oct_digit c = (48 \<le> (of_char c :: nat) \<and> (of_char c :: nat) \<le> 55)"

definition is_bin_digit :: "char \<Rightarrow> bool" where
  "is_bin_digit c = (48 \<le> (of_char c :: nat) \<and> (of_char c :: nat) \<le> 49)"

definition all_digits :: "(char \<Rightarrow> bool) \<Rightarrow> int \<Rightarrow> (char \<Rightarrow> int) \<Rightarrow> string \<Rightarrow> jsnum" where
  "all_digits ok radix val ds =
     (if ds \<noteq> [] \<and> list_all ok ds then Num (digits_value radix val ds) else NaN)"

fun numeric_literal :: "string \<Rightarrow> jsnum" where
  "numeric_literal (a # b # cs) =
     (if a = CHR ''0'' \<and> (b = CHR ''x'' \<or> b = CHR ''X'') then all_digits is_hex_digit 16 hex_val cs
      else if a = CHR ''0'' \<and> (b = CHR ''o'' \<or> b = CHR ''O'') then all_digits is_oct_digit 8 digit_val cs
      else if a = CHR ''0'' \<and> (b = CHR ''b'' \<or> b = CHR ''B'') then all_digits is_bin_digit 2 digit_val cs
      else if a = CHR ''-'' then num_mul (Num (- 1)) (all_digits is_digit 10 digit_val (b # cs))
      else if a = CHR ''+'' then all_digits is_digit 10 digit_val (b # cs)
      else all_digits is_digit 10 digit_val (a # b # cs))"
| "numeric_literal cs = all_digits is_digit 10 digit_val cs"

definition string_to_number :: "string \<Rightarrow> jsnum" where
  "string_to_number s =
     (let t = trim_end (skip_ws s) in if t = [] then Num 0 else numeric_literal t)"

fun to_number :: "jsval \<Rightarrow> jsnum" where
  "to_number (VNum n) = n"
| "to_number (VBool b) = Num (if b then 1 else 0)"
| "to_number (VStr s) = string_to_number s"

fun to_string :: "jsval \<Rightarrow> string" where
  "to_string (VNum n) = string_of_num n"
| "to_string (VBool b) = (if b then ''true'' else ''false'')"
| "to_string (VStr s) = s"

fun is_string :: "jsval \<Rightarrow> bool" where
  "is_string (VStr s) = True"
| "is_string _ = False"

definition js_add :: "jsval \<Rightarrow> jsval \<Rightarrow> jsval" where
  "js_add a b =
     (if is_string a \<or> is_string b then VStr (to_string a @ to_string b)
      else VNum (num_add (to_number a) (to_number b)))"

text \<open>
  The type of a row that a provider's query returns, which the repository does not
  declare: the rows are objects made by the database driver, node-postgres. A row has
  the columns of the table, kept as name and value pairs in column order, and the
  \<open>total_count\<close> column that the query adds. That column is a \<open>COUNT(*)\<close>, a
  \<open>bigint\<close>, which the driver hands over as a string of decimal digits and not as a
  number: the source reads every other count column with \<open>parseInt\<close>
  (\<open>unique_routes\<close>, \<open>unique_providers\<close>, \<open>countResult[0].count\<close>).
\<close>

datatype cell = CNull | CNum int | CStr string

type_synonym item = "(string \<times> cell) list"

record db_row =
  total_count :: string
  rest :: item

record processed =
  items :: "item list"
  total :: jsval

text \<open>\<open>results[0]?.total_count || 0\<close> keeps the driver's string, unless it is empty.\<close>

definition processResults :: "db_row list \<Rightarrow> string \<Rightarrow> processed" where
  "processResults results source =
     (case results of
        [] \<Rightarrow> \<lparr>items = [], total = VNum (Num 0)\<rparr>
      | r # _ \<Rightarrow> \<lparr>items = map rest results, total = js_or (VStr (total_count r)) (VNum (Num 0))\<rparr>)"

text \<open>
  \<open>pool.query(text, params)\<close> of a provider's connection pool: the rows, or a
  rejection with its message. The pools are the environment of the handler.
  \<open>.then(res => res.rows).catch(err => [])\<close> turns a rejection into no rows.
\<close>

type_synonym query_outcome = "string + db_row list"

type_synonym pool = "string \<Rightarrow> param list \<Rightarrow> query_outcome"

fun rows_or_empty :: "query_outcome \<Rightarrow> db_row list" where
  "rows_or_empty (Inl err) = []"
| "rows_or_empty (Inr rows) = rows"

record listing =
  success :: "bool option"
  data :: "item list"
  pagination :: "(string \<times> jsval) list"

datatype response =
  Json_listing listing
| Json_rows "item list"
| Json_error nat string

text \<open>
  The handler from the two \<open>pool.query\<close> calls on: the queries are run, the rows
  processed and \<open>combinedResults\<close> put together. \<open>total\<close> is
  \<open>(twelveGoData.total || 0) + (bookawayData.total || 0)\<close> and \<open>totalPages\<close> is
  \<open>Math.ceil\<close> of the same sum divided by \<open>limitNum\<close>.
\<close>

definition assemble :: "jsnum \<Rightarrow> jsnum \<Rightarrow> built \<Rightarrow> built \<Rightarrow> pool \<Rightarrow> pool \<Rightarrow> listing" where
  "assemble page_num limit_num twelveGoQuery bookawayQuery pool12go poolBookaway =
     (let result12go = rows_or_empty (pool12go (query twelveGoQuery) (qparams twelveGoQuery));
          resultBookaway = rows_or_empty (poolBookaway (query bookawayQuery) (qparams bookawayQuery));
          twelveGoData = processResults result12go ''12go'';
          bookawayData = processResults resultBookaway ''bookaway'';
          sum = js_add (js_or (total twelveGoData) (VNum (Num 0)))
                       (js_or (total bookawayData) (VNum (Num 0)))
      in \<lparr>success = None,
          data = items twelveGoData @ items bookawayData,
          pagination =
            [(''page'', VNum page_num),
             (''limit'', VNum limit_num),
             (''total'', sum),
             (''totalPages'', VNum (ceil_div (to_number sum) limit_num))]\<rparr>)"

definition combinedResults :: "req_query \<Rightarrow> pool \<Rightarrow> pool \<Rightarrow> listing" where
  "combinedResults q pool12go poolBookaway =
     assemble (pageNum q) (limitNum q) (buildQuery ''trips'' q) (buildQuery ''bookaway_trips'' q)
       pool12go poolBookaway"

text \<open>
  The handler on string parameters: \<open>cachedResult\<close> is what \<open>getFromCache(cacheKey)\<close>
  returned. On a hit the stored object is sent as it is; on a miss both providers are
  queried, the combined object is stored under the key and sent with \<open>success: true\<close>.
  The result is the response and the cache write, if any. With string parameters no
  statement of the handler throws; \<open>combined_trips_request\<close> below is the handler on
  all the values a parameter can have, with the \<open>catch\<close> that answers 500.
\<close>

definition combined_trips ::
  "req_query \<Rightarrow> listing option \<Rightarrow> pool \<Rightarrow> pool \<Rightarrow> response \<times> (string \<times> listing) option" where
  "combined_trips q cachedResult pool12go poolBookaway =
     (case cachedResult of
        Some c \<Rightarrow> (Json_listing c, None)
      | None \<Rightarrow>
          (let r = combinedResults q pool12go poolBookaway
           in (Json_listing (r\<lparr>success := Some True\<rparr>), Some (cacheKey q, r))))"

text \<open>
  Modelled from the SQL text that buildQuery produces: what a provider's database
  returns for it. \<open>matching\<close> are the rows of the table that satisfy the conditions,
  in the order of the \<open>ORDER BY\<close>; the scalar subquery counts them all, the driver
  writes the count in decimal digits, and \<open>LIMIT\<close> and \<open>OFFSET\<close>, the last two
  parameters, cut the page out. A limit or offset that is negative or not a number is
  rejected.
\<close>

definition paged_rows :: "item list \<Rightarrow> nat \<Rightarrow> nat \<Rightarrow> db_row list" where
  "paged_rows matching lim off =
     map (\<lambda>r. \<lparr>total_count = string_of_nat (length matching), rest = r\<rparr>) (take lim (drop off matching))"

definition provider_database :: "item list \<Rightarrow> pool" where
  "provider_database matching text ps =
     (case rev ps of
        PNum (Num off) # PNum (Num lim) # _ \<Rightarrow>
          if 0 \<le> lim \<and> 0 \<le> off then Inr (paged_rows matching (nat lim) (nat off))
          else Inl ''LIMIT and OFFSET must not be negative''
      | _ \<Rightarrow> Inl ''invalid input syntax for type bigint'')"

text \<open>For the examples: a table of ten trips, and a pool that rejects every query.\<close>

definition ten_trips :: "item list" where
  "ten_trips = map (\<lambda>i. [(''id'', CNum (int i))]) [1..<11]"

definition pool_down :: pool where
  "pool_down text ps = Inl ''connection refused''"




subsection \<open>The handler on the values Express hands over\<close>

text \<open>
  \<open>req.query\<close> is an object whose properties are strings, arrays or objects
  (\<open>qvalue\<close>); it is given by its properties, each name once, and an object value by
  its properties in the order JavaScript enumerates them. \<open>String(v)\<close> joins the
  elements of an array with commas; arrays and objects are truthy.
\<close>

type_synonym raw_query = "(string \<times> qvalue) list"

fun to_String :: "qvalue \<Rightarrow> string" where
  "to_String (QString s) = s"
| "to_String (QArray vs) = join '','' (map to_String vs)"
| "to_String (QObject ms) = ''[object Object]''"

fun json_value :: "qvalue \<Rightarrow> string" where
  "json_value (QString s) = json_string s"
| "json_value (QArray vs) = ''['' @ join '','' (map json_value vs) @ '']''"
| "json_value (QObject ms) =
     ''{'' @ join '','' (map (\<lambda>m. json_string (fst m) @ '':'' @ json_value (snd m)) ms) @ ''}''"

fun q_truthy :: "qvalue option \<Rightarrow> bool" where
  "q_truthy None = False"
| "q_truthy (Some (QString s)) = (s \<noteq> [])"
| "q_truthy (Some v) = True"

text \<open>A destructuring default applies when the property is \<open>undefined\<close>.\<close>

definition raw_default :: "string \<Rightarrow> qvalue option \<Rightarrow> qvalue" where
  "raw_default d p = (case p of None \<Rightarrow> QString d | Some v \<Rightarrow> v)"

definition pageNum_raw :: "raw_query \<Rightarrow> jsnum" where
  "pageNum_raw rq = Math_max (Num 1) (parseInt (to_String (raw_default ''1'' (map_of rq ''page''))))"

definition limitNum_raw :: "raw_query \<Rightarrow> jsnum" where
  "limitNum_raw rq =
     Math_min (Num 100) (Math_max (Num 1) (parseInt (to_String (raw_default ''50'' (map_of rq ''limit'')))))"

definition offset_raw :: "raw_query \<Rightarrow> jsnum" where
  "offset_raw rq = num_mul (num_sub (pageNum_raw rq) (Num 1)) (limitNum_raw rq)"

text \<open>\<open>p ? p.split(',') : []\<close>: an array or an object is truthy and has no method
  \<open>split\<close>, so the call throws.\<close>

fun split_raw :: "qvalue option \<Rightarrow> js_error + string list" where
  "split_raw None = Inr []"
| "split_raw (Some (QString s)) = Inr (if s \<noteq> [] then split_on CHR '','' s else [])"
| "split_raw (Some v) = Inl (TypeError ''split is not a function'')"

record lists =
  raw_origins :: "string list"
  raw_destinations :: "string list"
  raw_transportTypes :: "string list"
  raw_operatorNames :: "string list"

text \<open>The four \<open>split\<close> statements, in the order of the source.\<close>

definition parse_lists :: "raw_query \<Rightarrow> js_error + lists" where
  "parse_lists rq =
     (case split_raw (map_of rq ''origin'') of
        Inl e \<Rightarrow> Inl e
      | Inr os \<Rightarrow>
     (case split_raw (map_of rq ''destination'') of
        Inl e \<Rightarrow> Inl e
      | Inr ds \<Rightarrow>
     (case split_raw (map_of rq ''transport_type'') of
        Inl e \<Rightarrow> Inl e
      | Inr ts \<Rightarrow>
     (case split_raw (map_of rq ''operator_name'') of
        Inl e \<Rightarrow> Inl e
      | Inr ns \<Rightarrow>
          Inr \<lparr>raw_origins = os, raw_destinations = ds, raw_transportTypes = ts,
               raw_operatorNames = ns\<rparr>))))"

definition cacheKey_raw :: "raw_query \<Rightarrow> lists \<Rightarrow> string" where
  "cacheKey_raw rq ls = ''combined_trips_'' @ json_object
     [(''origins'', Some (json_array (raw_origins ls))),
      (''destinations'', Some (json_array (raw_destinations ls))),
      (''operatorNames'', Some (json_array (raw_operatorNames ls))),
      (''transportTypes'', Some (json_array (raw_transportTypes ls))),
      (''timeline'', map_option json_value (map_of rq ''timeline'')),
      (''start_date'', map_option json_value (map_of rq ''start_date'')),
      (''end_date'', map_option json_value (map_of rq ''end_date'')),
      (''travel_date'', map_option json_value (map_of rq ''travel_date'')),
      (''pageNum'', Some (json_num (pageNum_raw rq))),
      (''limitNum'', Some (json_num (limitNum_raw rq))),
      (''sort_by'', Some (json_value (raw_default ''departure_time'' (map_of rq ''sort_by'')))),
      (''sort_order'', Some (json_value (raw_default ''ASC'' (map_of rq ''sort_order''))))]"

text \<open>
  The \<open>travel_date\<close> block has a \<open>try\<close> of its own: \<open>travel_date.split('-')\<close> of an
  array or an object throws before anything is pushed, and the \<open>catch\<close> only logs.
\<close>

fun add_travel_date_raw :: "qvalue option \<Rightarrow> builder \<Rightarrow> builder" where
  "add_travel_date_raw (Some (QString s)) b = add_travel_date (Some s) b"
| "add_travel_date_raw _ b = b"

text \<open>\<open>params.push(start_date, end_date)\<close> pushes the values as they are.\<close>

fun param_of :: "qvalue \<Rightarrow> param" where
  "param_of (QString s) = PStr s"
| "param_of v = PVal v"

fun timeline_raw :: "qvalue \<Rightarrow> builder \<Rightarrow> js_error + builder" where
  "timeline_raw (QString t) b =
     Inr (case timeline_condition t of
            Some c \<Rightarrow> b\<lparr>conditions := conditions b @ [c]\<rparr>
          | None \<Rightarrow> b)"
| "timeline_raw v b = Inl (TypeError ''timeline.toLowerCase is not a function'')"

definition add_dates_raw :: "raw_query \<Rightarrow> builder \<Rightarrow> js_error + builder" where
  "add_dates_raw rq b =
     (if q_truthy (map_of rq ''start_date'') \<and> q_truthy (map_of rq ''end_date'')
      then Inr \<lparr>params = params b @ [param_of (the (map_of rq ''start_date'')),
                                     param_of (the (map_of rq ''end_date''))],
                conditions = conditions b
                  @ [''travel_date BETWEEN $'' @ string_of_nat (paramIndex b)
                     @ '' AND $'' @ string_of_nat (paramIndex b + 1)],
                paramIndex = paramIndex b + 2\<rparr>
      else if q_truthy (map_of rq ''timeline'')
      then timeline_raw (the (map_of rq ''timeline'')) b
      else Inr b)"

text \<open>\<open>[...].includes(sort_by)\<close> is false for an array or an object.\<close>

fun safeSortBy_raw :: "qvalue \<Rightarrow> string" where
  "safeSortBy_raw (QString c) = (if c \<in> set sort_columns then c else ''departure_time'')"
| "safeSortBy_raw v = ''departure_time''"

text \<open>\<open>sort_order.toUpperCase()\<close>: an array or an object has no such method.\<close>

fun safeSortOrder_raw :: "qvalue \<Rightarrow> js_error + string" where
  "safeSortOrder_raw (QString s) =
     Inr (if toUpperCase s \<in> set [''ASC'', ''DESC''] then toUpperCase s else ''ASC'')"
| "safeSortOrder_raw v = Inl (TypeError ''sort_order.toUpperCase is not a function'')"

definition filters_raw :: "string \<Rightarrow> raw_query \<Rightarrow> lists \<Rightarrow> js_error + builder" where
  "filters_raw tableName rq ls =
     add_dates_raw rq
       (add_travel_date_raw (map_of rq ''travel_date'')
         (add_in ''operator_name'' (raw_operatorNames ls)
           (add_in ''transport_type'' (raw_transportTypes ls)
             (add_in (if tableName = ''trips'' then ''destination'' else ''to_location'') (raw_destinations ls)
               (add_in (if tableName = ''trips'' then ''origin'' else ''from_location'') (raw_origins ls)
                 \<lparr>params = [], conditions = [], paramIndex = 1\<rparr>)))))"

definition buildQuery_raw :: "string \<Rightarrow> raw_query \<Rightarrow> lists \<Rightarrow> js_error + built" where
  "buildQuery_raw tableName rq ls =
     (case filters_raw tableName rq ls of
        Inl e \<Rightarrow> Inl e
      | Inr b \<Rightarrow>
         (case safeSortOrder_raw (raw_default ''ASC'' (map_of rq ''sort_order'')) of
            Inl e \<Rightarrow> Inl e
          | Inr so \<Rightarrow>
              Inr \<lparr>query = select_from tableName b
                     @ ('' ORDER BY '' @ safeSortBy_raw (raw_default ''departure_time'' (map_of rq ''sort_by''))
                        @ '' '' @ so)
                     @ limit_offset b,
                   qparams = params b @ [PNum (limitNum_raw rq), PNum (offset_raw rq)]\<rparr>))"

text \<open>
  The handler. Whatever a statement of the \<open>try\<close> block throws is answered by the
  \<open>catch\<close> with status 500 and \<open>error: 'Failed to fetch combined trips data'\<close>, and
  nothing is stored. The four \<open>split\<close> statements come before the cache is read,
  the two calls of buildQuery after it.
\<close>

definition failed :: "response \<times> (string \<times> listing) option" where
  "failed = (Json_error 500 ''Failed to fetch combined trips data'', None)"

definition combined_trips_request ::
  "raw_query \<Rightarrow> listing option \<Rightarrow> pool \<Rightarrow> pool \<Rightarrow> response \<times> (string \<times> listing) option" where
  "combined_trips_request rq cachedResult pool12go poolBookaway =
     (case parse_lists rq of
        Inl e \<Rightarrow> failed
      | Inr ls \<Rightarrow>
         (case cachedResult of
            Some c \<Rightarrow> (Json_listing c, None)
          | None \<Rightarrow>
             (case buildQuery_raw ''trips'' rq ls of
                Inl e \<Rightarrow> failed
              | Inr twelveGoQuery \<Rightarrow>
                 (case buildQuery_raw ''bookaway_trips'' rq ls of
                    Inl e \<Rightarrow> failed
                  | Inr bookawayQuery \<Rightarrow>
                     (let r = assemble (pageNum_raw rq) (limitNum_raw rq) twelveGoQuery bookawayQuery
                                pool12go poolBookaway
                      in (Json_listing (r\<lparr>success := Some True\<rparr>), Some (cacheKey_raw rq ls, r)))))))"

text \<open>
  The string parameters of a request in which no parameter of the handler is an array
  or an object; for such a request the two forms of the handler agree.
\<close>

fun string_value :: "qvalue option \<Rightarrow> string option" where
  "string_value (Some (QString s)) = Some s"
| "string_value _ = None"

fun is_scalar :: "qvalue option \<Rightarrow> bool" where
  "is_scalar None = True"
| "is_scalar (Some (QString s)) = True"
| "is_scalar (Some v) = False"

definition strings_of :: "raw_query \<Rightarrow> req_query" where
  "strings_of rq =
     \<lparr>origin = string_value (map_of rq ''origin''),
      destination = string_value (map_of rq ''destination''),
      operator_name = string_value (map_of rq ''operator_name''),
      transport_type = string_value (map_of rq ''transport_type''),
      timeline = string_value (map_of rq ''timeline''),
      start_date = string_value (map_of rq ''start_date''),
      end_date = string_value (map_of rq ''end_date''),
      travel_date = string_value (map_of rq ''travel_date''),
      page = string_value (map_of rq ''page''), limit = string_value (map_of rq ''limit''),
      sort_by = string_value (map_of rq ''sort_by''),
      sort_order = string_value (map_of rq ''sort_order'')\<rparr>"

definition parameter_names :: "string list" where
  "parameter_names =
     [''origin'', ''destination'', ''operator_name'', ''transport_type'', ''timeline'',
      ''start_date'', ''end_date'', ''travel_date'', ''page'', ''limit'', ''sort_by'', ''sort_order'']"

definition all_scalar :: "raw_query \<Rightarrow> bool" where
  "all_scalar rq = list_all (\<lambda>n. is_scalar (map_of rq n)) parameter_names"

text \<open>The request \<open>?sort_order=a&sort_order=b\<close>, and the same for \<open>sort_by\<close>.\<close>

definition sort_order_twice :: raw_query where
  "sort_order_twice = [(''sort_order'', QArray [QString ''a'', QString ''b''])]"

definition sort_by_twice :: raw_query where
  "sort_by_twice = [(''sort_by'', QArray [QString ''a'', QString ''b''])]"

definition no_lists :: lists where
  "no_lists = \<lparr>raw_origins = [], raw_destinations = [], raw_transportTypes = [], raw_operatorNames = []\<rparr>"

section \<open>The provider trips endpoint (server.js)\<close>

definition pools :: "string list" where
  "pools = [''12go'', ''bookaway'']"

text \<open>
  \<open>pools[provider]\<close> is also truthy for a name that every object inherits. Such a
  provider passes the first test and fails at \<open>pool.connect\<close>, inside the \<open>try\<close>.
\<close>

definition inherited_properties :: "string list" where
  "inherited_properties =
     [''constructor'', ''__proto__'', ''hasOwnProperty'', ''isPrototypeOf'',
      ''propertyIsEnumerable'', ''toLocaleString'', ''toString'', ''valueOf'',
      ''__defineGetter__'', ''__defineSetter__'', ''__lookupGetter__'', ''__lookupSetter__'']"

definition provider_page :: "string option \<Rightarrow> jsnum" where
  "provider_page p = num_or (parseInt_param p) (Num 1)"

definition provider_limit :: "string option \<Rightarrow> jsnum" where
  "provider_limit l = num_or (parseInt_param l) (Num 10)"

definition provider_offset :: "string option \<Rightarrow> string option \<Rightarrow> jsnum" where
  "provider_offset p l = num_mul (num_sub (provider_page p) (Num 1)) (provider_limit l)"

definition sq :: "string \<Rightarrow> string" where
  "sq s = [CHR 0x27] @ s @ [CHR 0x27]"

definition dq :: "string \<Rightarrow> string" where
  "dq s = [CHR 0x22] @ s @ [CHR 0x22]"

definition count_sql :: "string \<Rightarrow> string" where
  "count_sql tableName = ''SELECT COUNT(*) FROM '' @ tableName"

text \<open>The text of the page query, line by line.\<close>

definition page_sql :: "string \<Rightarrow> string \<Rightarrow> string" where
  "page_sql provider tableName = join [CHR 0x0A]
     [''SELECT '',
      ''        id,'',
      ''        COALESCE(origin, '' @ sq ''N/A'' @ '') as '' @ dq ''From'' @ '','',
      ''        COALESCE(destination, '' @ sq ''N/A'' @ '') as '' @ dq ''To'' @ '','',
      ''        COALESCE(price_inr, 0) as '' @ dq ''Price'' @ '','',
      ''        COALESCE(operator_name, '' @ sq ''N/A'' @ '') as '' @ dq ''Operator'' @ '','',
      ''        COALESCE(TO_CHAR(travel_date, '' @ sq ''YYYY-MM-DD'' @ ''), '' @ sq ''N/A''
        @ '') as '' @ dq ''Date'' @ '','',
      ''        COALESCE(route_url, '' @ sq ''#'' @ '') as route_url,'',
      ''        COALESCE(transport_type, '' @ sq ''N/A'' @ '') as transport_type,'',
      ''        COALESCE(TO_CHAR(departure_time, '' @ sq ''HH24:MI'' @ ''), '' @ sq ''N/A''
        @ '') as departure_time,'',
      ''        COALESCE(TO_CHAR(arrival_time, '' @ sq ''HH24:MI'' @ ''), '' @ sq ''N/A''
        @ '') as arrival_time,'',
      ''        '' @ sq provider @ '' as source'',
      ''      FROM '' @ tableName @ '' '',
      ''      ORDER BY id '',
      ''      LIMIT $1 OFFSET $2'']"

text \<open>
  \<open>safeQuery(pool, text, params)\<close> at its two call sites: the count query returns
  rows given by their \<open>count\<close> column (a string, read by \<open>parseInt(_, 10)\<close>), the
  page query returns the trips. A rejected query, and reading \<open>countResult[0].count\<close>
  of an empty result, throw inside the \<open>try\<close> and are answered with 500.
\<close>

type_synonym count_pool = "string \<Rightarrow> param list \<Rightarrow> string + string list"

type_synonym page_pool = "string \<Rightarrow> param list \<Rightarrow> string + item list"

definition provider_trips ::
  "string \<Rightarrow> string option \<Rightarrow> string option \<Rightarrow> listing option \<Rightarrow> count_pool \<Rightarrow> page_pool
   \<Rightarrow> response \<times> (string \<times> listing) option" where
  "provider_trips provider p l cachedData count_query page_query =
     (let page = provider_page p; limit = provider_limit l; offset = provider_offset p l;
          tableName = (if provider = ''bookaway'' then ''bookaway_trips'' else ''trips'')
      in
      if provider \<notin> set pools \<and> provider \<notin> set inherited_properties
      then (Json_error 400 (''Invalid provider. Use either '' @ dq ''12go''
                              @ '' or '' @ dq ''bookaway''), None)
      else (case cachedData of
          Some c \<Rightarrow> (Json_listing c, None)
        | None \<Rightarrow>
           if provider \<notin> set pools then (Json_error 500 ''Failed to fetch trips'', None)
           else
           (case count_query (count_sql tableName) [] of
              Inl err \<Rightarrow> (Json_error 500 ''Failed to fetch trips'', None)
            | Inr countResult \<Rightarrow>
               (case page_query (page_sql provider tableName) [PNum limit, PNum offset] of
                  Inl err \<Rightarrow> (Json_error 500 ''Failed to fetch trips'', None)
                | Inr trips \<Rightarrow>
                   (case countResult of
                      [] \<Rightarrow> (Json_error 500 ''Failed to fetch trips'', None)
                    | c # _ \<Rightarrow>
                       (let total = parseInt10 c;
                            totalPages = ceil_div total limit;
                            response = \<lparr>success = None, data = trips,
                              pagination =
                                [(''total'', VNum total),
                                 (''page'', VNum page),
                                 (''limit'', VNum limit),
                                 (''totalPages'', VNum totalPages),
                                 (''hasNextPage'', VBool (num_less page totalPages)),
                                 (''hasPrevPage'', VBool (num_less (Num 1) page))]\<rparr>
                        in (Json_listing response,
                            Some (provider @ ''_trips_page'' @ string_of_num page
                                  @ ''_limit'' @ string_of_num limit, response))))))))"

text \<open>For the examples: a count query that answers 1234, and a page query that
  answers with one row showing the limit and the offset it was asked for.\<close>

definition count_1234 :: count_pool where
  "count_1234 text ps = Inr [''1234'']"

definition page_echo :: page_pool where
  "page_echo text ps =
     Inr [[(''LIMIT'', (case ps of PNum (Num lim) # _ \<Rightarrow> CNum lim | _ \<Rightarrow> CNull)),
           (''OFFSET'', (case ps of _ # PNum (Num off) # _ \<Rightarrow> CNum off | _ \<Rightarrow> CNull))]]"

text \<open>The names of the properties of a response's pagination object.\<close>

fun response_pagination :: "response \<Rightarrow> (string \<times> jsval) list" where
  "response_pagination (Json_listing r) = pagination r"
| "response_pagination _ = []"

definition pagination_fields :: "response \<Rightarrow> string list" where
  "pagination_fields r = map fst (response_pagination r)"


text \<open>A request without parameters, from which the examples are built.\<close>

definition no_parameters :: req_query where
  "no_parameters =
     \<lparr>origin = None, destination = None, operator_name = None, transport_type = None,
      timeline = None, start_date = None, end_date = None, travel_date = None,
      page = None, limit = None, sort_by = None, sort_order = None\<rparr>"

section \<open>Cache statistics\<close>

subsection \<open>The cache with a dispose callback (migrateomio.js)\<close>

text \<open>
  What the cache holds, as far as \<open>safeStringify\<close> tells values apart: a string, an
  object with its JSON text, an object that \<open>JSON.stringify\<close> throws on, and
  \<open>undefined\<close>, for which \<open>JSON.stringify\<close> returns \<open>undefined\<close>.
\<close>

datatype cache_value = VString string | VJson string | VCyclic | VUndefined

fun safeStringify :: "cache_value \<Rightarrow> string option" where
  "safeStringify (VString s) = Some s"
| "safeStringify (VJson j) = Some j"
| "safeStringify VCyclic = Some ''error''"
| "safeStringify VUndefined = None"

text \<open>\<open>Buffer.byteLength\<close> of \<open>undefined\<close> throws, and the \<open>catch\<close> returns 0.\<close>

definition calculateSize :: "cache_value \<Rightarrow> cache_value \<Rightarrow> int" where
  "calculateSize v k =
     (case safeStringify k of
        None \<Rightarrow> 0
      | Some keyStr \<Rightarrow>
         (case safeStringify v of
            None \<Rightarrow> 0
          | Some valueStr \<Rightarrow> int (length valueStr) + int (length keyStr)))"

record cacheStats =
  hits :: nat
  misses :: nat
  evictions :: nat
  currentSize :: int
  lastEviction :: "string option"

definition initial_cacheStats :: cacheStats where
  "initial_cacheStats = \<lparr>hits = 0, misses = 0, evictions = 0, currentSize = 0, lastEviction = None\<rparr>"

text \<open>
  The callback \<open>dispose: (key, value) => ...\<close> with the clock reading
  \<open>new Date().toISOString()\<close> of the call.
\<close>

definition dispose :: "cache_value \<Rightarrow> cache_value \<Rightarrow> string \<Rightarrow> cacheStats \<Rightarrow> cacheStats" where
  "dispose key v now s =
     s\<lparr>evictions := evictions s + 1,
       lastEviction := Some now,
       currentSize := max 0 (currentSize s - calculateSize v key)\<rparr>"

text \<open>
  The lru-cache library is not part of the repository. It is taken as the environment:
  a call of \<open>get\<close> or \<open>set\<close> comes with the entries the library removes during the
  call (an entry over the item or size limit, or found expired), and the library calls
  the configured callback once for each, passing the value first and the key second.
\<close>

record removed =
  removed_key :: cache_value
  removed_value :: cache_value
  removed_at :: string

definition run_dispose :: "removed list \<Rightarrow> cacheStats \<Rightarrow> cacheStats" where
  "run_dispose rs s = foldl (\<lambda>s r. dispose (removed_value r) (removed_key r) (removed_at r) s) s rs"

text \<open>\<open>got\<close> is what \<open>lruCache.get\<close> returned, \<open>None\<close> for \<open>undefined\<close>.\<close>

definition getFromCache :: "cache_value option \<Rightarrow> removed list \<Rightarrow> cacheStats \<Rightarrow> cacheStats" where
  "getFromCache got rs s =
     (let s1 = run_dispose rs s
      in if got \<noteq> None then s1\<lparr>hits := hits s1 + 1\<rparr> else s1\<lparr>misses := misses s1 + 1\<rparr>)"

definition setInCache :: "cache_value \<Rightarrow> cache_value \<Rightarrow> removed list \<Rightarrow> cacheStats \<Rightarrow> cacheStats" where
  "setInCache key v rs s =
     (let cacheKey = (case safeStringify key of None \<Rightarrow> VUndefined | Some k \<Rightarrow> VString k);
          size = calculateSize v cacheKey;
          s1 = s\<lparr>currentSize := currentSize s + size\<rparr>
      in run_dispose rs s1)"

datatype stat = SNum int | SNull | SStr string

definition MAX_CACHE_ITEMS :: int where
  "MAX_CACHE_ITEMS = 50"

text \<open>
  The body of \<open>GET /api/cache-stats\<close>: the properties of \<open>cacheStats\<close>, the item count
  of the cache and the item limit. The three formatted strings \<open>size\<close>, \<open>maxSize\<close>
  and \<open>hitRate\<close> are floating-point renderings of these numbers and are left out.
\<close>

definition cache_stats :: "cacheStats \<Rightarrow> nat \<Rightarrow> (string \<times> stat) list" where
  "cache_stats s itemCount =
     [(''hits'', SNum (int (hits s))),
      (''misses'', SNum (int (misses s))),
      (''evictions'', SNum (int (evictions s))),
      (''currentSize'', SNum (currentSize s)),
      (''lastEviction'', (case lastEviction s of None \<Rightarrow> SNull | Some t \<Rightarrow> SStr t)),
      (''itemCount'', SNum (int itemCount)),
      (''maxItems'', SNum MAX_CACHE_ITEMS)]"

datatype cache_op =
  Get "cache_value option" "removed list"
| Set cache_value cache_value "removed list"
| Stats nat

fun cache_step :: "cacheStats \<Rightarrow> cache_op \<Rightarrow> cacheStats" where
  "cache_step s (Get got rs) = getFromCache got rs s"
| "cache_step s (Set k v rs) = setInCache k v rs s"
| "cache_step s (Stats n) = s"

definition cache_run :: "cacheStats \<Rightarrow> cache_op list \<Rightarrow> cacheStats" where
  "cache_run s ops = foldl cache_step s ops"

subsection \<open>The cache without a callback (server.js)\<close>

text \<open>
  server.js keeps \<open>hits\<close> and \<open>misses\<close> only, configures the cache with \<open>max\<close>
  and \<open>ttl\<close> and no callback, and has no statistics route. \<open>setInCache\<close> stores the
  item count of the cache as \<open>currentSize\<close>, a property the object does not have
  before the first call.
\<close>

record server_stats =
  server_hits :: nat
  server_misses :: nat
  server_currentSize :: "nat option"

definition server_getFromCache :: "cache_value option \<Rightarrow> removed list \<Rightarrow> server_stats \<Rightarrow> server_stats" where
  "server_getFromCache got rs s =
     (if got \<noteq> None then s\<lparr>server_hits := server_hits s + 1\<rparr>
      else s\<lparr>server_misses := server_misses s + 1\<rparr>)"

text \<open>\<open>size_after\<close> is \<open>lruCache.size\<close> after the \<open>set\<close>.\<close>

definition server_setInCache ::
  "cache_value \<Rightarrow> cache_value \<Rightarrow> removed list \<Rightarrow> nat \<Rightarrow> server_stats \<Rightarrow> server_stats" where
  "server_setInCache key v rs size_after s = s\<lparr>server_currentSize := Some size_after\<rparr>"

datatype server_op =
  SGet "cache_value option" "removed list"
| SSet cache_value cache_value "removed list" nat

fun server_step :: "server_stats \<Rightarrow> server_op \<Rightarrow> server_stats" where
  "server_step s (SGet got rs) = server_getFromCache got rs s"
| "server_step s (SSet k v rs n) = server_setInCache k v rs n s"

definition server_run :: "server_stats \<Rightarrow> server_op list \<Rightarrow> server_stats" where
  "server_run s ops = foldl server_step s ops"

section \<open>The origin, destination and route endpoints (first server)\<close>

text \<open>
  The module declares these names at top level and no others. A name that a handler
  reads and that is not its parameter or local is resolved in this scope; reading an
  undeclared name throws a \<open>ReferenceError\<close>. The names that the runtime provides
  (\<open>console\<close>, \<open>require\<close> and the like) are not listed; \<open>tripCacheMap\<close> is not
  one of them.
\<close>

datatype binding = Opaque | MapOf "(string \<times> item list) list"

definition module_scope :: "(string \<times> binding) list" where
  "module_scope =
     [(''express'', Opaque), (''cors'', Opaque), (''Pool'', Opaque), (''dotenv'', Opaque),
      (''LRUCache'', Opaque), (''app'', Opaque), (''port'', Opaque), (''pool'', Opaque),
      (''CACHE_DURATION'', Opaque), (''MAX_CACHE_ITEMS'', Opaque), (''MAX_CACHE_SIZE'', Opaque),
      (''lruCache'', Opaque)]"

definition resolve :: "(string \<times> binding) list \<Rightarrow> string \<Rightarrow> js_error + binding" where
  "resolve scope name =
     (case map_of scope name of None \<Rightarrow> Inl (ReferenceError name) | Some b \<Rightarrow> Inr b)"

text \<open>\<open>m.has(k)\<close> and \<open>m.get(k)\<close> of a value that may not be a \<open>Map\<close>.\<close>

fun map_has :: "binding \<Rightarrow> string \<Rightarrow> js_error + bool" where
  "map_has (MapOf m) k = Inr (map_of m k \<noteq> None)"
| "map_has Opaque k = Inl (TypeError ''has is not a function'')"

fun map_get :: "binding \<Rightarrow> string \<Rightarrow> js_error + item list" where
  "map_get (MapOf m) k =
     (case map_of m k of None \<Rightarrow> Inl (TypeError ''filter of undefined'') | Some ts \<Rightarrow> Inr ts)"
| "map_get Opaque k = Inl (TypeError ''get is not a function'')"

text \<open>\<open>t.origin === origin\<close> for a route parameter, which is a string.\<close>

definition column_is :: "string \<Rightarrow> string \<Rightarrow> item \<Rightarrow> bool" where
  "column_is col v t = (map_of t col = Some (CStr v))"

text \<open>
  The outcome of \<open>pool.query\<close> inside the \<open>try\<close>: a rejection is answered with 500,
  no rows with 404.
\<close>

definition from_database :: "string \<Rightarrow> (string + item list) \<Rightarrow> response" where
  "from_database not_found db =
     (case db of
        Inl err \<Rightarrow> Json_error 500 ''Failed to fetch trips''
      | Inr rows \<Rightarrow> if length rows = 0 then Json_error 404 not_found else Json_rows rows)"

text \<open>
  A handler returns its response, or the error it throws. The cache is given by its
  live entries, as \<open>lruCache.get\<close> sees them; the stored values are arrays, which are
  truthy even when empty. The handlers run with the scope of their module.
\<close>

definition trips_from ::
  "(string \<times> binding) list \<Rightarrow> (string \<Rightarrow> item list option) \<Rightarrow> string \<Rightarrow> (string + item list)
   \<Rightarrow> js_error + response" where
  "trips_from scope lruCache orig db =
     (let cacheKey = ''trips_from_'' @ orig in
      case lruCache cacheKey of
        Some cachedTrips \<Rightarrow>
          (case resolve scope ''tripCacheMap'' of
             Inl e \<Rightarrow> Inl e
           | Inr m \<Rightarrow>
              (case map_get m ''allTrips'' of
                 Inl e \<Rightarrow> Inl e
               | Inr ts \<Rightarrow> Inr (Json_rows (filter (column_is ''origin'' orig) ts))))
      | None \<Rightarrow> Inr (from_database ''No trips found for this origin'' db))"

definition trips_to ::
  "(string \<times> binding) list \<Rightarrow> string \<Rightarrow> (string + item list) \<Rightarrow> js_error + response" where
  "trips_to scope dest db =
     (case resolve scope ''tripCacheMap'' of
        Inl e \<Rightarrow> Inl e
      | Inr m \<Rightarrow>
         (case map_has m ''allTrips'' of
            Inl e \<Rightarrow> Inl e
          | Inr True \<Rightarrow>
             (case map_get m ''allTrips'' of
                Inl e \<Rightarrow> Inl e
              | Inr ts \<Rightarrow> Inr (Json_rows (filter (column_is ''destination'' dest) ts)))
          | Inr False \<Rightarrow> Inr (from_database ''No trips found for this destination'' db)))"

definition trips_route ::
  "(string \<times> binding) list \<Rightarrow> string \<Rightarrow> string \<Rightarrow> (string + item list) \<Rightarrow> js_error + response" where
  "trips_route scope from to db =
     (case resolve scope ''tripCacheMap'' of
        Inl e \<Rightarrow> Inl e
      | Inr m \<Rightarrow>
         (case map_has m ''allTrips'' of
            Inl e \<Rightarrow> Inl e
          | Inr True \<Rightarrow>
             (case map_get m ''allTrips'' of
                Inl e \<Rightarrow> Inl e
              | Inr ts \<Rightarrow> Inr (Json_rows (filter (\<lambda>t. column_is ''origin'' from t
                                                     \<and> column_is ''destination'' to t) ts)))
          | Inr False \<Rightarrow> Inr (from_database (''No trips found from '' @ from @ '' to '' @ to) db)))"

section \<open>Auxiliary notions for the proofs\<close>




text \<open>What a provider's page contributes to the total: the number of matching rows
  when the offset reaches one of them, and nothing otherwise.\<close>

definition page_total :: "item list \<Rightarrow> nat \<Rightarrow> jsval" where
  "page_total matching off =
     (if off < length matching then VStr (string_of_nat (length matching)) else VNum (Num 0))"


text \<open>A cache that holds the key of the origin Bangkok, for the example of the origin
  endpoint.\<close>

definition cache_with_Bangkok :: "string \<Rightarrow> item list option" where
  "cache_with_Bangkok k = (if k = ''trips_from_Bangkok'' then Some [[(''id'', CNum 1)]] else None)"


section \<open>Pagination parameters\<close>

lemma Math_max_Num: "Math_max (Num a) x = Num r \<Longrightarrow> a \<le> r"
  by (cases x) (auto split: if_splits)

lemma Math_min_Num: "Math_min (Num a) x = Num r \<Longrightarrow> r \<le> a"
  by (cases x) (auto split: if_splits)

lemma pageNum_at_least_1: "pageNum q = Num p \<Longrightarrow> 1 \<le> p"
  unfolding pageNum_def by (rule Math_max_Num)

lemma limitNum_bounds: "limitNum q = Num l \<Longrightarrow> 1 \<le> l \<and> l \<le> 100"
proof -
  assume a: "limitNum q = Num l"
  then have "l \<le> 100"
    unfolding limitNum_def by (rule Math_min_Num)
  moreover have "1 \<le> l"
  proof (cases "parseInt (default_to ''50'' (limit q))")
    case (Num x)
    with a show ?thesis by (auto simp: limitNum_def)
  next
    case NaN
    with a show ?thesis by (simp add: limitNum_def)
  qed
  ultimately show ?thesis by simp
qed

lemma combined_clamp:
  "parseInt (default_to ''1'' (page q)) = Num p \<Longrightarrow> pageNum q = Num (max 1 p)"
  "parseInt (default_to ''50'' (limit q)) = Num l \<Longrightarrow> limitNum q = Num (min 100 (max 1 l))"
  by (simp_all add: pageNum_def limitNum_def)

lemma combined_unreadable:
  "pageNum (no_parameters\<lparr>page := Some ''abc''\<rparr>) = NaN
   \<and> limitNum (no_parameters\<lparr>limit := Some ''abc''\<rparr>) = NaN"
  by code_simp

lemma provider_no_bound:
  "parseInt_param p = Num n \<Longrightarrow> n \<noteq> 0 \<Longrightarrow> provider_page p = Num n \<and> provider_limit p = Num n"
  by (simp add: provider_page_def provider_limit_def num_or_def)

text \<open>
  C5. Pagination parameters are clamped before use on every trip-listing endpoint: the
  page is at least 1 and the page size never exceeds the maximum, so that page=0 and
  limit=1000 give page 1 and limit 100. The combined-trips handler does this
  (\<open>combined_clamp\<close>); the handler of \<open>/api/:provider/trips\<close> replaces only a missing,
  unreadable or zero value by its default (\<open>provider_no_bound\<close>). At page=0 and
  limit=1000 it uses limit 1000, and a negative page is used as it is, with a negative
  offset.
\<close>

theorem provider_trips_limit_unclamped:
  "provider_page (Some ''0'') = Num 1
   \<and> provider_limit (Some ''1000'') = Num 1000
   \<and> fst (provider_trips ''12go'' (Some ''0'') (Some ''1000'') None count_1234 page_echo)
       = Json_listing
           \<lparr>success = None,
            data = [[(''LIMIT'', CNum 1000), (''OFFSET'', CNum 0)]],
            pagination = [(''total'', VNum (Num 1234)), (''page'', VNum (Num 1)),
                          (''limit'', VNum (Num 1000)), (''totalPages'', VNum (Num 2)),
                          (''hasNextPage'', VBool True), (''hasPrevPage'', VBool False)]\<rparr>
   \<and> limitNum (no_parameters\<lparr>page := Some ''0'', limit := Some ''1000''\<rparr>) = Num 100
   \<and> pageNum (no_parameters\<lparr>page := Some ''0'', limit := Some ''1000''\<rparr>) = Num 1
   \<and> provider_page (Some ''-3'') = Num (- 3)
   \<and> provider_offset (Some ''-3'') (Some ''1000'') = Num (- 4000)"
  by code_simp

section \<open>Sorting\<close>

lemma filters_ignore_sort: "filters t (q\<lparr>sort_by := sb, sort_order := so\<rparr>) = filters t q"
  by (simp add: filters_def add_dates_def origins_def destinations_def transportTypes_def
      operatorNames_def)

lemma safeSortBy_cases:
  "safeSortBy q = (case sort_by q of
                     Some c \<Rightarrow> if c \<in> set sort_columns then c else ''departure_time''
                   | None \<Rightarrow> ''departure_time'')"
  by (simp add: safeSortBy_def default_to_def sort_columns_def split: option.splits)

lemma safeSortOrder_cases:
  "safeSortOrder q =
     (if toUpperCase (default_to ''ASC'' (sort_order q)) = ''DESC'' then ''DESC'' else ''ASC'')"
  by (simp add: safeSortOrder_def)

text \<open>
  The sort parameters when they are strings. A sort column outside the whitelist
  \<open>departure_time\<close>, \<open>arrival_time\<close>, \<open>price_inr\<close>, \<open>duration_minutes\<close> is replaced
  by \<open>departure_time\<close>, and a sort direction whose upper case is not \<open>ASC\<close> or
  \<open>DESC\<close> by \<open>ASC\<close>; a whitelisted column is used as given and a whitelisted
  direction in upper case. The query text is the text before the \<open>ORDER BY\<close>, the
  clause with these two words, and the \<open>LIMIT\<close> clause; the sort parameters reach
  nothing else.
\<close>

lemma sort_strings_whitelist:
  "query (buildQuery t q) =
     select_from t (filters t q)
     @ '' ORDER BY ''
     @ (case sort_by q of
          Some c \<Rightarrow> if c \<in> set sort_columns then c else ''departure_time''
        | None \<Rightarrow> ''departure_time'')
     @ '' ''
     @ (if toUpperCase (default_to ''ASC'' (sort_order q)) = ''DESC'' then ''DESC'' else ''ASC'')
     @ limit_offset (filters t q)
   \<and> filters t (q\<lparr>sort_by := sb, sort_order := so\<rparr>) = filters t q"
proof -
  have "query (buildQuery t q) = select_from t (filters t q) @ order_by q @ limit_offset (filters t q)"
    by (simp add: buildQuery_def Let_def)
  then show ?thesis
    by (simp only: order_by_def safeSortBy_cases safeSortOrder_cases filters_ignore_sort
        append_assoc simp_thms)
qed

text \<open>The spec's scenario, a whitelisted pair, and a direction written with the long s
  (U+017F), whose upper case is \<open>S\<close>.\<close>

lemma sort_strings_examples:
  "query (buildQuery ''trips''
     (no_parameters\<lparr>sort_by := Some ([CHR 0x22] @ ''; DROP TABLE trips'' @ [CHR 0x22]),
                     sort_order := Some ''sideways''\<rparr>))
   = ''SELECT *, (SELECT COUNT(*) FROM trips ) as total_count FROM trips ORDER BY departure_time ASC LIMIT $1 OFFSET $2''
   \<and> query (buildQuery ''trips'' (no_parameters\<lparr>sort_by := Some ''price_inr'', sort_order := Some ''desc''\<rparr>))
   = ''SELECT *, (SELECT COUNT(*) FROM trips ) as total_count FROM trips ORDER BY price_inr DESC LIMIT $1 OFFSET $2''
   \<and> safeSortOrder (no_parameters\<lparr>sort_order := Some (''de'' @ [CHR 0xC5, CHR 0xBF] @ ''c'')\<rparr>) = ''DESC''"
  by code_simp

text \<open>
  C6. A sort column outside the whitelist or a sort direction outside \<open>ASC\<close> and
  \<open>DESC\<close> makes the query use the default sort without raising an error. A request
  that gives \<open>sort_order\<close> twice hands the handler an array, which is outside the
  whitelist: \<open>sort_order.toUpperCase()\<close> throws, on a cache miss the handler answers
  500 whatever the providers would return, and nothing is stored. The same request with
  \<open>sort_by\<close> is sorted by the default column, since \<open>includes\<close> does not throw.
\<close>

theorem sort_order_array_raises:
  "combined_trips_request sort_order_twice None pool12go poolBookaway
     = (Json_error 500 ''Failed to fetch combined trips data'', None)
   \<and> parse_lists sort_order_twice = Inr no_lists
   \<and> buildQuery_raw ''trips'' sort_order_twice no_lists
     = Inl (TypeError ''sort_order.toUpperCase is not a function'')
   \<and> buildQuery_raw ''trips'' sort_by_twice no_lists
     = Inr \<lparr>query = ''SELECT *, (SELECT COUNT(*) FROM trips ) as total_count FROM trips ORDER BY departure_time ASC LIMIT $1 OFFSET $2'',
            qparams = [PNum (Num 50), PNum (Num 0)]\<rparr>"
proof -
  have l: "parse_lists sort_order_twice = Inr no_lists"
    by code_simp
  have b: "buildQuery_raw ''trips'' sort_order_twice no_lists
           = Inl (TypeError ''sort_order.toUpperCase is not a function'')"
    by code_simp
  have s: "buildQuery_raw ''trips'' sort_by_twice no_lists
     = Inr \<lparr>query = ''SELECT *, (SELECT COUNT(*) FROM trips ) as total_count FROM trips ORDER BY departure_time ASC LIMIT $1 OFFSET $2'',
            qparams = [PNum (Num 50), PNum (Num 0)]\<rparr>"
    by code_simp
  have "combined_trips_request sort_order_twice None pool12go poolBookaway
          = (Json_error 500 ''Failed to fetch combined trips data'', None)"
    by (simp add: combined_trips_request_def l b failed_def)
  with l b s show ?thesis by simp
qed

section \<open>The response of the listing endpoints\<close>

text \<open>
  C7. Every successful response of a trip-listing endpoint carries the six pagination
  fields \<open>total\<close>, \<open>page\<close>, \<open>limit\<close>, \<open>totalPages\<close>, \<open>hasNextPage\<close> and
  \<open>hasPrevPage\<close>. The provider endpoint's fresh response has the six; the
  combined-trips response has \<open>page\<close>, \<open>limit\<close>, \<open>total\<close> and \<open>totalPages\<close> only,
  whatever the request and the providers' results, and the same object is what it
  stores in the cache.
\<close>

theorem combined_trips_pagination_fields:
  "pagination_fields (fst (combined_trips q None pool12go poolBookaway))
     = [''page'', ''limit'', ''total'', ''totalPages'']
   \<and> map (map fst \<circ> pagination \<circ> snd) (case snd (combined_trips q None pool12go poolBookaway) of
         None \<Rightarrow> [] | Some w \<Rightarrow> [w])
     = [[''page'', ''limit'', ''total'', ''totalPages'']]
   \<and> pagination_fields (fst (provider_trips ''12go'' p l None count_1234 page_echo))
     = [''total'', ''page'', ''limit'', ''totalPages'', ''hasNextPage'', ''hasPrevPage'']"
  by (simp add: combined_trips_def combinedResults_def assemble_def provider_trips_def pagination_fields_def
      pools_def Let_def count_1234_def page_echo_def)

section \<open>Rows of the combined response\<close>

lemma processResults_items: "items (processResults results source) = map rest results"
  by (simp add: processResults_def split: list.splits)

lemma processResults_total:
  "total (processResults results source) =
     (case results of
        [] \<Rightarrow> VNum (Num 0)
      | r # _ \<Rightarrow> if total_count r = [] then VNum (Num 0) else VStr (total_count r))"
  by (simp add: processResults_def js_or_def split: list.splits)

lemma processResults_source: "processResults results source = processResults results source'"
  by (simp add: processResults_def)

lemma total_or_0:
  "js_or (total (processResults results source)) (VNum (Num 0)) = total (processResults results source)"
  by (simp add: processResults_total js_or_def split: list.splits)

lemma combinedResults_eq:
  "combinedResults q pool12go poolBookaway =
     (let a = rows_or_empty (pool12go (query (buildQuery ''trips'' q)) (qparams (buildQuery ''trips'' q)));
          b = rows_or_empty (poolBookaway (query (buildQuery ''bookaway_trips'' q))
                                          (qparams (buildQuery ''bookaway_trips'' q)));
          sum = js_add (total (processResults a ''12go'')) (total (processResults b ''bookaway''))
      in \<lparr>success = None,
          data = map rest a @ map rest b,
          pagination =
            [(''page'', VNum (pageNum q)),
             (''limit'', VNum (limitNum q)),
             (''total'', sum),
             (''totalPages'', VNum (ceil_div (to_number sum) (limitNum q)))]\<rparr>)"
  by (simp add: combinedResults_def assemble_def Let_def processResults_items total_or_0)





section \<open>One provider failing\<close>

text \<open>
  What holds of a request in which one provider's query is rejected: the response is a
  successful one with exactly the rows of the other provider. Its total is the sum
  that the source writes with \<open>+\<close>, of the other provider's total and the number 0.
\<close>

lemma surviving_12go:
  assumes "pool12go (query (buildQuery ''trips'' q)) (qparams (buildQuery ''trips'' q)) = Inr rows"
      and "poolBookaway (query (buildQuery ''bookaway_trips'' q))
                        (qparams (buildQuery ''bookaway_trips'' q)) = Inl err"
  shows "fst (combined_trips q None pool12go poolBookaway) =
           Json_listing
             \<lparr>success = Some True,
              data = map rest rows,
              pagination =
                [(''page'', VNum (pageNum q)),
                 (''limit'', VNum (limitNum q)),
                 (''total'', js_add (total (processResults rows ''12go'')) (VNum (Num 0))),
                 (''totalPages'', VNum (ceil_div
                    (to_number (js_add (total (processResults rows ''12go'')) (VNum (Num 0))))
                    (limitNum q)))]\<rparr>"
  using assms
  by (simp add: combined_trips_def combinedResults_eq processResults_total [of "[]"] Let_def)

lemma surviving_bookaway:
  assumes "pool12go (query (buildQuery ''trips'' q)) (qparams (buildQuery ''trips'' q)) = Inl err"
      and "poolBookaway (query (buildQuery ''bookaway_trips'' q))
                        (qparams (buildQuery ''bookaway_trips'' q)) = Inr rows"
  shows "fst (combined_trips q None pool12go poolBookaway) =
           Json_listing
             \<lparr>success = Some True,
              data = map rest rows,
              pagination =
                [(''page'', VNum (pageNum q)),
                 (''limit'', VNum (limitNum q)),
                 (''total'', js_add (VNum (Num 0)) (total (processResults rows ''bookaway''))),
                 (''totalPages'', VNum (ceil_div
                    (to_number (js_add (VNum (Num 0)) (total (processResults rows ''bookaway''))))
                    (limitNum q)))]\<rparr>"
  using assms
  by (simp add: combined_trips_def combinedResults_eq processResults_total [of "[]"] Let_def)

text \<open>The handler's \<open>+\<close> of a count and the number 0.\<close>

lemma count_plus_0:
  "c \<noteq> [] \<Longrightarrow> js_add (VStr c) (VNum (Num 0)) = VStr (c @ ''0'')"
  "c \<noteq> [] \<Longrightarrow> js_add (VNum (Num 0)) (VStr c) = VStr (''0'' @ c)"
  by (simp_all add: js_add_def) code_simp+

text \<open>
  C3. When one provider's query fails and the other succeeds, the handler answers with
  a successful response, the surviving provider's rows are all returned, and
  \<open>pagination.total\<close> is the sum of the two providers' totals: with three rows
  carrying \<open>total_count\<close> 10 from one provider and a failure of the other, three rows
  and total 10. The request is \<open>limit=3\<close> on a cache miss, 12go has ten matching trips
  and bookaway rejects its query: the response is successful and has the three rows,
  but the driver hands the count over as the string \<open>10\<close>, and the handler's \<open>+\<close>
  appends the failed provider's 0 to it: total is the string \<open>100\<close> and totalPages
  is 34. With the providers exchanged the total is the string \<open>010\<close>.
\<close>

theorem one_provider_failing_total:
  "map total_count (rows_or_empty (provider_database ten_trips
       (query (buildQuery ''trips'' (no_parameters\<lparr>limit := Some ''3''\<rparr>)))
       (qparams (buildQuery ''trips'' (no_parameters\<lparr>limit := Some ''3''\<rparr>)))))
     = [''10'', ''10'', ''10'']
   \<and> fst (combined_trips (no_parameters\<lparr>limit := Some ''3''\<rparr>) None
            (provider_database ten_trips) pool_down)
     = Json_listing
         \<lparr>success = Some True,
          data = [[(''id'', CNum 1)], [(''id'', CNum 2)], [(''id'', CNum 3)]],
          pagination = [(''page'', VNum (Num 1)), (''limit'', VNum (Num 3)),
                        (''total'', VStr ''100''), (''totalPages'', VNum (Num 34))]\<rparr>
   \<and> fst (combined_trips (no_parameters\<lparr>limit := Some ''3''\<rparr>) None
            pool_down (provider_database ten_trips))
     = Json_listing
         \<lparr>success = Some True,
          data = [[(''id'', CNum 1)], [(''id'', CNum 2)], [(''id'', CNum 3)]],
          pagination = [(''page'', VNum (Num 1)), (''limit'', VNum (Num 3)),
                        (''total'', VStr ''010''), (''totalPages'', VNum (Num 4))]\<rparr>"
  by code_simp

section \<open>The total of a page\<close>

lemma string_of_nat_not_empty: "string_of_nat n \<noteq> []"
  by (subst string_of_nat.simps) simp

lemma paged_rows_empty: "length matching \<le> off \<Longrightarrow> paged_rows matching lim off = []"
  by (simp add: paged_rows_def)

lemma paged_rows_total:
  "off < length matching \<Longrightarrow> 0 < lim
   \<Longrightarrow> total (processResults (paged_rows matching lim off) source)
       = VStr (string_of_nat (length matching))"
proof -
  assume a: "off < length matching" "0 < lim"
  then have "take lim (drop off matching) \<noteq> []"
    by simp
  then obtain r rs where "take lim (drop off matching) = r # rs"
    by (cases "take lim (drop off matching)") auto
  then show ?thesis
    by (simp add: paged_rows_def processResults_total string_of_nat_not_empty)
qed

lemma provider_database_page:
  "limitNum q = Num (int lim) \<Longrightarrow> offset q = Num (int off)
   \<Longrightarrow> provider_database matching (query (buildQuery t q)) (qparams (buildQuery t q))
       = Inr (paged_rows matching lim off)"
  by (simp add: provider_database_def buildQuery_def Let_def)

text \<open>
  C10. A provider's total is the \<open>total_count\<close> of the first row its page query
  returns, and 0 when the query returns no row. A page past the last matching row
  returns no row, so the provider's total is 0 there although rows match, and
  \<open>pagination.total\<close> and \<open>totalPages\<close> change with the requested page: each
  provider contributes its count of matching rows, as the driver writes it, on a page
  that reaches them and the number 0 beyond; total is the handler's \<open>+\<close> of the two
  contributions and totalPages its quotient by the page size, rounded up.
\<close>

theorem total_depends_on_page:
  assumes "limitNum q = Num (int lim)" and "offset q = Num (int off)"
  shows "total (processResults [] source) = VNum (Num 0)
         \<and> total (processResults (r # rs) source)
             = (if total_count r = [] then VNum (Num 0) else VStr (total_count r))
         \<and> response_pagination (fst (combined_trips q None
               (provider_database matching12go) (provider_database matchingBookaway)))
           = [(''page'', VNum (pageNum q)),
              (''limit'', VNum (Num (int lim))),
              (''total'', js_add (page_total matching12go off) (page_total matchingBookaway off)),
              (''totalPages'', VNum (ceil_div
                 (to_number (js_add (page_total matching12go off) (page_total matchingBookaway off)))
                 (Num (int lim))))]"
proof -
  from assms(1) have "1 \<le> int lim"
    using limitNum_bounds by blast
  then have lim: "0 < lim" by simp
  have t: "total (processResults (paged_rows m lim off) s) = page_total m off" for m s
  proof (cases "off < length m")
    case True
    with lim show ?thesis by (simp add: paged_rows_total page_total_def)
  next
    case False
    then show ?thesis by (simp add: paged_rows_empty page_total_def processResults_total)
  qed
  have "total (processResults [] source) = VNum (Num 0)"
    by (simp add: processResults_total)
  moreover have "total (processResults (r # rs) source)
                 = (if total_count r = [] then VNum (Num 0) else VStr (total_count r))"
    by (simp add: processResults_total)
  moreover have "response_pagination (fst (combined_trips q None
               (provider_database matching12go) (provider_database matchingBookaway)))
           = [(''page'', VNum (pageNum q)),
              (''limit'', VNum (Num (int lim))),
              (''total'', js_add (page_total matching12go off) (page_total matchingBookaway off)),
              (''totalPages'', VNum (ceil_div
                 (to_number (js_add (page_total matching12go off) (page_total matchingBookaway off)))
                 (Num (int lim))))]"
    by (simp add: combined_trips_def combinedResults_eq provider_database_page [OF assms] t assms(1)
        Let_def)
  ultimately show ?thesis by simp
qed

theorem total_depends_on_page_witness:
  "response_pagination (fst (combined_trips (no_parameters\<lparr>page := Some ''2'', limit := Some ''2''\<rparr>) None
       (provider_database [[(''id'', CNum 1)], [(''id'', CNum 2)], [(''id'', CNum 3)]])
       (provider_database [])))
     = [(''page'', VNum (Num 2)), (''limit'', VNum (Num 2)),
        (''total'', VStr ''30''), (''totalPages'', VNum (Num 15))]
   \<and> response_pagination (fst (combined_trips (no_parameters\<lparr>page := Some ''3'', limit := Some ''2''\<rparr>) None
       (provider_database [[(''id'', CNum 1)], [(''id'', CNum 2)], [(''id'', CNum 3)]])
       (provider_database [])))
     = [(''page'', VNum (Num 3)), (''limit'', VNum (Num 2)),
        (''total'', VNum (Num 0)), (''totalPages'', VNum (Num 0))]"
proof -
  let ?q2 = "no_parameters\<lparr>page := Some ''2'', limit := Some ''2''\<rparr>"
  let ?q3 = "no_parameters\<lparr>page := Some ''3'', limit := Some ''2''\<rparr>"
  let ?m = "[[(''id'', CNum 1)], [(''id'', CNum 2)], [(''id'', CNum 3)]] :: item list"
  have l2: "limitNum ?q2 = Num (int 2)" by code_simp
  have o2: "offset ?q2 = Num (int 2)" by code_simp
  have p2: "pageNum ?q2 = Num 2" by code_simp
  have l3: "limitNum ?q3 = Num (int 2)" by code_simp
  have o3: "offset ?q3 = Num (int 4)" by code_simp
  have p3: "pageNum ?q3 = Num 3" by code_simp
  have s2: "js_add (page_total ?m 2) (page_total [] 2) = VStr ''30''" by code_simp
  have s3: "js_add (page_total ?m 4) (page_total [] 4) = VNum (Num 0)" by code_simp
  have c2: "ceil_div (string_to_number ''30'') (Num 2) = Num 15" by code_simp
  from total_depends_on_page [OF l2 o2, of "''12go''" _ _ ?m "[]"]
  have a: "response_pagination (fst (combined_trips ?q2 None (provider_database ?m) (provider_database [])))
           = [(''page'', VNum (Num 2)), (''limit'', VNum (Num 2)),
              (''total'', VStr ''30''), (''totalPages'', VNum (Num 15))]"
    by (simp add: p2 s2 c2)
  from total_depends_on_page [OF l3 o3, of "''12go''" _ _ ?m "[]"]
  have b: "response_pagination (fst (combined_trips ?q3 None (provider_database ?m) (provider_database [])))
           = [(''page'', VNum (Num 3)), (''limit'', VNum (Num 2)),
              (''total'', VNum (Num 0)), (''totalPages'', VNum (Num 0))]"
    by (simp add: p3 s3)
  from a b show ?thesis by simp
qed

section \<open>Values and the SQL text\<close>



























section \<open>The cache key\<close>

lemma destructure_cong: "map_of kvs = map_of kvs' \<Longrightarrow> destructure kvs = destructure kvs'"
  by (simp add: destructure_def)

text \<open>
  C2, as the code has it. The key is written from the parsed parameters in a fixed
  order of fields, so it does not depend on the order in which the request names its
  parameters: two parameter lists with distinct names that are permutations of each
  other give the same key. Inside a multi-value parameter the values keep the order of
  the request.
\<close>

theorem cacheKey_parameter_order:
  assumes "distinct (map fst kvs)" and "mset kvs = mset kvs'"
  shows "cacheKey (destructure kvs) = cacheKey (destructure kvs')"
proof -
  from assms(2) have "mset (map fst kvs) = mset (map fst kvs')"
    by (metis mset_map)
  with assms(1) have d: "distinct (map fst kvs')"
    by (metis mset_eq_imp_distinct_iff)
  from assms(2) have "set kvs = set kvs'"
    by (rule mset_eq_setD)
  with assms(1) d have "map_of kvs = map_of kvs'"
    by (simp add: map_of_inject_set)
  then have "destructure kvs = destructure kvs'"
    by (rule destructure_cong)
  then show ?thesis
    by simp
qed

theorem cacheKey_parameter_order_witness:
  "cacheKey (destructure [(''origin'', ''A,B''), (''page'', ''2''), (''sort_by'', ''price_inr'')])
   = cacheKey (destructure [(''sort_by'', ''price_inr''), (''origin'', ''A,B''), (''page'', ''2'')])"
proof -
  have d: "distinct (map fst [(''origin'', ''A,B''), (''page'', ''2''), (''sort_by'', ''price_inr'')])"
    by simp
  have m: "mset [(''origin'', ''A,B''), (''page'', ''2''), (''sort_by'', ''price_inr'')]
           = mset [(''sort_by'', ''price_inr''), (''origin'', ''A,B''), (''page'', ''2'')]"
    by (simp add: add_mset_commute)
  from cacheKey_parameter_order [OF d m] show ?thesis .
qed

text \<open>
  C2, as stated, fails: the origins \<open>A,B\<close> and \<open>B,A\<close> select the same two places,
  and the two requests get different keys.
\<close>

theorem cacheKey_value_order_counterexample:
  "origins (no_parameters\<lparr>origin := Some ''A,B''\<rparr>) = [''A'', ''B'']
   \<and> origins (no_parameters\<lparr>origin := Some ''B,A''\<rparr>) = [''B'', ''A'']
   \<and> cacheKey (no_parameters\<lparr>origin := Some ''A,B''\<rparr>)
       \<noteq> cacheKey (no_parameters\<lparr>origin := Some ''B,A''\<rparr>)"
  by code_simp

section \<open>Cache statistics\<close>

lemma run_dispose_snoc:
  "run_dispose (rs @ [r]) s = dispose (removed_value r) (removed_key r) (removed_at r) (run_dispose rs s)"
  by (simp add: run_dispose_def)

lemma run_dispose_counters:
  "hits (run_dispose rs s) = hits s \<and> misses (run_dispose rs s) = misses s
   \<and> evictions (run_dispose rs s) = evictions s + length rs"
proof (induction rs rule: rev_induct)
  case Nil
  show ?case by (simp add: run_dispose_def)
next
  case (snoc r rs)
  then show ?case by (simp add: run_dispose_snoc dispose_def)
qed

lemma cache_step_mono:
  "hits s \<le> hits (cache_step s x) \<and> misses s \<le> misses (cache_step s x)
   \<and> evictions s \<le> evictions (cache_step s x)"
  by (cases x) (simp_all add: getFromCache_def setInCache_def Let_def run_dispose_counters)

lemma cache_run_mono:
  "hits s \<le> hits (cache_run s ops) \<and> misses s \<le> misses (cache_run s ops)
   \<and> evictions s \<le> evictions (cache_run s ops)"
proof (induction ops rule: rev_induct)
  case Nil
  show ?case by (simp add: cache_run_def)
next
  case (snoc x ops)
  have "cache_run s (ops @ [x]) = cache_step (cache_run s ops) x"
    by (simp add: cache_run_def)
  with snoc cache_step_mono [of "cache_run s ops" x] show ?case
    by auto
qed

lemma server_step_mono:
  "server_hits s \<le> server_hits (server_step s x) \<and> server_misses s \<le> server_misses (server_step s x)"
  by (cases x) (simp_all add: server_getFromCache_def server_setInCache_def)

lemma server_run_mono:
  "server_hits s \<le> server_hits (server_run s ops) \<and> server_misses s \<le> server_misses (server_run s ops)"
proof (induction ops rule: rev_induct)
  case Nil
  show ?case by (simp add: server_run_def)
next
  case (snoc x ops)
  have "server_run s (ops @ [x]) = server_step (server_run s ops) x"
    by (simp add: server_run_def)
  with snoc server_step_mono [of "server_run s ops" x] show ?case
    by auto
qed

text \<open>
  C8, as the code has it. In the cache that is configured with the dispose callback
  (migrateomio.js) every entry the library removes adds one to \<open>evictions\<close> and sets
  \<open>lastEviction\<close> to the time of the call; a \<open>get\<close> or \<open>set\<close> during which the
  library removes \<open>n\<close> entries adds \<open>n\<close>; the hit, miss and eviction counters never
  decrease over any sequence of cache operations; and the statistics query returns
  the counters and the timestamp and leaves them as they are. In server.js, which has
  the hit and miss counters only, these two never decrease either.
\<close>

theorem cache_counters_monotone:
  "evictions (dispose key v now s) = evictions s + 1
   \<and> lastEviction (dispose key v now s) = Some now
   \<and> evictions (getFromCache got rs s) = evictions s + length rs
   \<and> evictions (setInCache k v rs s) = evictions s + length rs
   \<and> lastEviction (run_dispose (rs @ [r]) s) = Some (removed_at r)
   \<and> hits s \<le> hits (cache_run s ops)
   \<and> misses s \<le> misses (cache_run s ops)
   \<and> evictions s \<le> evictions (cache_run s ops)
   \<and> cache_step s (Stats n) = s
   \<and> map_of (cache_stats s n) ''hits'' = Some (SNum (int (hits s)))
   \<and> map_of (cache_stats s n) ''misses'' = Some (SNum (int (misses s)))
   \<and> map_of (cache_stats s n) ''evictions'' = Some (SNum (int (evictions s)))
   \<and> map_of (cache_stats s n) ''lastEviction''
       = Some (case lastEviction s of None \<Rightarrow> SNull | Some t \<Rightarrow> SStr t)
   \<and> server_hits s' \<le> server_hits (server_run s' ops')
   \<and> server_misses s' \<le> server_misses (server_run s' ops')"
proof -
  have "evictions (dispose key v now s) = evictions s + 1"
    and "lastEviction (dispose key v now s) = Some now"
    by (simp_all add: dispose_def)
  moreover have "evictions (getFromCache got rs s) = evictions s + length rs"
    by (simp add: getFromCache_def Let_def run_dispose_counters)
  moreover have "evictions (setInCache k v rs s) = evictions s + length rs"
    by (simp add: setInCache_def Let_def run_dispose_counters)
  moreover have "lastEviction (run_dispose (rs @ [r]) s) = Some (removed_at r)"
    by (simp add: run_dispose_snoc dispose_def)
  moreover have "cache_step s (Stats n) = s"
    by simp
  moreover have "map_of (cache_stats s n) ''hits'' = Some (SNum (int (hits s)))"
    and "map_of (cache_stats s n) ''misses'' = Some (SNum (int (misses s)))"
    and "map_of (cache_stats s n) ''evictions'' = Some (SNum (int (evictions s)))"
    and "map_of (cache_stats s n) ''lastEviction''
         = Some (case lastEviction s of None \<Rightarrow> SNull | Some t \<Rightarrow> SStr t)"
    by (simp_all add: cache_stats_def)
  ultimately show ?thesis
    using cache_run_mono [of s ops] server_run_mono [of s' ops'] by simp
qed

text \<open>
  C8, as stated, fails in server.js: a \<open>set\<close> during which the library evicts an
  entry of the full cache leaves the statistics as they were, with no eviction counted
  and no time recorded.
\<close>

theorem server_eviction_unrecorded_counterexample:
  "server_setInCache (VString ''12go_trips_page51_limit10'') (VJson ''{}'')
     [\<lparr>removed_key = VString ''12go_trips_page1_limit10'', removed_value = VJson ''{}'',
       removed_at = ''2025-01-01T00:00:00.000Z''\<rparr>] 50
     \<lparr>server_hits = 3, server_misses = 51, server_currentSize = Some 50\<rparr>
   = \<lparr>server_hits = 3, server_misses = 51, server_currentSize = Some 50\<rparr>"
  by (simp add: server_setInCache_def)

section \<open>The undefined \<open>tripCacheMap\<close>\<close>

lemma tripCacheMap_unresolved: "resolve module_scope ''tripCacheMap'' = Inl (ReferenceError ''tripCacheMap'')"
  by (simp add: resolve_def module_scope_def)

text \<open>
  C9. \<open>tripCacheMap\<close> is declared nowhere in the module. When the cache holds the key
  \<open>trips_from_<origin>\<close>, the handler of \<open>/api/trips/from/:origin\<close> reads it and
  throws a \<open>ReferenceError\<close> instead of answering with the cached trips. The handlers
  of \<open>/api/trips/to/:destination\<close> and \<open>/api/trips/route/:from/:to\<close> read it in their
  first statement and throw on every request, so they never serve a cached response.
\<close>

theorem tripCacheMap_not_defined:
  assumes "lruCache (''trips_from_'' @ orig) = Some cachedTrips"
  shows "map_of module_scope ''tripCacheMap'' = None
         \<and> trips_from module_scope lruCache orig db = Inl (ReferenceError ''tripCacheMap'')
         \<and> trips_to module_scope dest db' = Inl (ReferenceError ''tripCacheMap'')
         \<and> trips_route module_scope from to db'' = Inl (ReferenceError ''tripCacheMap'')"
proof -
  have "map_of module_scope ''tripCacheMap'' = None"
    by (simp add: module_scope_def)
  moreover from assms
  have "trips_from module_scope lruCache orig db = Inl (ReferenceError ''tripCacheMap'')"
    by (simp add: trips_from_def tripCacheMap_unresolved)
  moreover have "trips_to module_scope dest db' = Inl (ReferenceError ''tripCacheMap'')"
    by (simp add: trips_to_def tripCacheMap_unresolved)
  moreover have "trips_route module_scope from to db'' = Inl (ReferenceError ''tripCacheMap'')"
    by (simp add: trips_route_def tripCacheMap_unresolved)
  ultimately show ?thesis by simp
qed

theorem tripCacheMap_not_defined_witness:
  "trips_from module_scope cache_with_Bangkok ''Bangkok'' (Inr [[(''id'', CNum 1)]]) = Inl (ReferenceError ''tripCacheMap'')
   \<and> trips_to module_scope ''Phuket'' (Inr [[(''id'', CNum 1)]]) = Inl (ReferenceError ''tripCacheMap'')
   \<and> trips_route module_scope ''Bangkok'' ''Phuket'' (Inr [[(''id'', CNum 1)]])
       = Inl (ReferenceError ''tripCacheMap'')"
proof -
  have h: "cache_with_Bangkok (''trips_from_'' @ ''Bangkok'') = Some [[(''id'', CNum 1)]]"
    by (simp add: cache_with_Bangkok_def)
  from tripCacheMap_not_defined [of cache_with_Bangkok "''Bangkok''" "[[(''id'', CNum 1)]]"
      "Inr [[(''id'', CNum 1)]]" "''Phuket''" "Inr [[(''id'', CNum 1)]]"
      "''Bangkok''" "''Phuket''" "Inr [[(''id'', CNum 1)]]", OF h]
  show ?thesis by simp
qed

section \<open>The two forms of the combined-trips handler\<close>

lemma is_scalar_cases: "is_scalar p \<Longrightarrow> p = None \<or> (\<exists>s. p = Some (QString s))"
  by (cases p rule: is_scalar.cases) simp_all

lemma split_raw_scalar: "is_scalar p \<Longrightarrow> split_raw p = Inr (split_param (string_value p))"
  by (cases p rule: is_scalar.cases) (simp_all add: split_param_def truthy_str_def)

lemma q_truthy_scalar: "is_scalar p \<Longrightarrow> q_truthy p = truthy_str (string_value p)"
  by (cases p rule: is_scalar.cases) (simp_all add: truthy_str_def)

lemma raw_default_scalar:
  "is_scalar p \<Longrightarrow> raw_default d p = QString (default_to d (string_value p))"
  by (cases p rule: is_scalar.cases) (simp_all add: raw_default_def default_to_def)

lemma json_value_scalar:
  "is_scalar p \<Longrightarrow> map_option json_value p = map_option json_string (string_value p)"
  by (cases p rule: is_scalar.cases) simp_all

lemma param_of_scalar:
  "is_scalar p \<Longrightarrow> q_truthy p \<Longrightarrow> param_of (the p) = PStr (the (string_value p))"
  by (cases p rule: is_scalar.cases) simp_all

lemma add_travel_date_raw_scalar:
  "is_scalar p \<Longrightarrow> add_travel_date_raw p b = add_travel_date (string_value p) b"
  by (cases p rule: is_scalar.cases) (simp_all add: add_travel_date_def truthy_str_def)

lemma timeline_raw_scalar:
  "is_scalar p \<Longrightarrow> q_truthy p
   \<Longrightarrow> timeline_raw (the p) b
       = Inr (case timeline_condition (the (string_value p)) of
                Some c \<Rightarrow> b\<lparr>conditions := conditions b @ [c]\<rparr>
              | None \<Rightarrow> b)"
  by (cases p rule: is_scalar.cases) simp_all

lemma all_scalar_parameter:
  "all_scalar rq \<Longrightarrow> n \<in> set parameter_names \<Longrightarrow> is_scalar (map_of rq n)"
  by (simp add: all_scalar_def list_all_iff)

lemma parameter_names_simps:
  "''origin'' \<in> set parameter_names" "''destination'' \<in> set parameter_names"
  "''operator_name'' \<in> set parameter_names" "''transport_type'' \<in> set parameter_names"
  "''timeline'' \<in> set parameter_names" "''start_date'' \<in> set parameter_names"
  "''end_date'' \<in> set parameter_names" "''travel_date'' \<in> set parameter_names"
  "''page'' \<in> set parameter_names" "''limit'' \<in> set parameter_names"
  "''sort_by'' \<in> set parameter_names" "''sort_order'' \<in> set parameter_names"
  by (simp_all add: parameter_names_def)

lemmas scalar = all_scalar_parameter [OF _ parameter_names_simps(1)]
  all_scalar_parameter [OF _ parameter_names_simps(2)]
  all_scalar_parameter [OF _ parameter_names_simps(3)]
  all_scalar_parameter [OF _ parameter_names_simps(4)]
  all_scalar_parameter [OF _ parameter_names_simps(5)]
  all_scalar_parameter [OF _ parameter_names_simps(6)]
  all_scalar_parameter [OF _ parameter_names_simps(7)]
  all_scalar_parameter [OF _ parameter_names_simps(8)]
  all_scalar_parameter [OF _ parameter_names_simps(9)]
  all_scalar_parameter [OF _ parameter_names_simps(10)]
  all_scalar_parameter [OF _ parameter_names_simps(11)]
  all_scalar_parameter [OF _ parameter_names_simps(12)]

lemma pageNum_raw_scalar: "all_scalar rq \<Longrightarrow> pageNum_raw rq = pageNum (strings_of rq)"
  by (simp add: pageNum_raw_def pageNum_def strings_of_def raw_default_scalar scalar)

lemma limitNum_raw_scalar: "all_scalar rq \<Longrightarrow> limitNum_raw rq = limitNum (strings_of rq)"
  by (simp add: limitNum_raw_def limitNum_def strings_of_def raw_default_scalar scalar)

lemma offset_raw_scalar: "all_scalar rq \<Longrightarrow> offset_raw rq = offset (strings_of rq)"
  by (simp add: offset_raw_def offset_def pageNum_raw_scalar limitNum_raw_scalar)

text \<open>The four lists of a request, as the string form of the handler parses them.\<close>

lemma parse_lists_scalar:
  "all_scalar rq
   \<Longrightarrow> parse_lists rq
       = Inr \<lparr>raw_origins = origins (strings_of rq), raw_destinations = destinations (strings_of rq),
              raw_transportTypes = transportTypes (strings_of rq),
              raw_operatorNames = operatorNames (strings_of rq)\<rparr>"
  by (simp add: parse_lists_def split_raw_scalar scalar origins_def destinations_def
      transportTypes_def operatorNames_def strings_of_def)

lemma cacheKey_raw_scalar:
  assumes "all_scalar rq"
  shows "cacheKey_raw rq
           \<lparr>raw_origins = origins (strings_of rq), raw_destinations = destinations (strings_of rq),
            raw_transportTypes = transportTypes (strings_of rq),
            raw_operatorNames = operatorNames (strings_of rq)\<rparr>
         = cacheKey (strings_of rq)"
proof -
  have "timeline (strings_of rq) = string_value (map_of rq ''timeline'')"
    "start_date (strings_of rq) = string_value (map_of rq ''start_date'')"
    "end_date (strings_of rq) = string_value (map_of rq ''end_date'')"
    "travel_date (strings_of rq) = string_value (map_of rq ''travel_date'')"
    "sort_by (strings_of rq) = string_value (map_of rq ''sort_by'')"
    "sort_order (strings_of rq) = string_value (map_of rq ''sort_order'')"
    by (simp_all add: strings_of_def)
  then show ?thesis
    using assms
    by (simp add: cacheKey_raw_def cacheKey_def pageNum_raw_scalar limitNum_raw_scalar
        json_value_scalar raw_default_scalar scalar)
qed

lemma add_dates_raw_scalar:
  assumes "all_scalar rq"
  shows "add_dates_raw rq b = Inr (add_dates (strings_of rq) b)"
proof -
  have f: "timeline (strings_of rq) = string_value (map_of rq ''timeline'')"
    "start_date (strings_of rq) = string_value (map_of rq ''start_date'')"
    "end_date (strings_of rq) = string_value (map_of rq ''end_date'')"
    by (simp_all add: strings_of_def)
  show ?thesis
    using assms
    by (simp add: add_dates_raw_def add_dates_def f q_truthy_scalar param_of_scalar
        timeline_raw_scalar scalar)
qed

lemma filters_raw_scalar:
  assumes "all_scalar rq"
  shows "filters_raw t rq
           \<lparr>raw_origins = origins (strings_of rq), raw_destinations = destinations (strings_of rq),
            raw_transportTypes = transportTypes (strings_of rq),
            raw_operatorNames = operatorNames (strings_of rq)\<rparr>
         = Inr (filters t (strings_of rq))"
proof -
  have "travel_date (strings_of rq) = string_value (map_of rq ''travel_date'')"
    by (simp add: strings_of_def)
  then show ?thesis
    using assms
    by (simp add: filters_raw_def filters_def add_dates_raw_scalar add_travel_date_raw_scalar scalar)
qed

lemma buildQuery_raw_scalar:
  assumes "all_scalar rq"
  shows "buildQuery_raw t rq
           \<lparr>raw_origins = origins (strings_of rq), raw_destinations = destinations (strings_of rq),
            raw_transportTypes = transportTypes (strings_of rq),
            raw_operatorNames = operatorNames (strings_of rq)\<rparr>
         = Inr (buildQuery t (strings_of rq))"
proof -
  have f: "sort_by (strings_of rq) = string_value (map_of rq ''sort_by'')"
    "sort_order (strings_of rq) = string_value (map_of rq ''sort_order'')"
    by (simp_all add: strings_of_def)
  show ?thesis
    using assms
    by (simp add: buildQuery_raw_def buildQuery_def filters_raw_scalar raw_default_scalar scalar
        order_by_def safeSortBy_def safeSortOrder_def f limitNum_raw_scalar offset_raw_scalar Let_def)
qed

text \<open>
  For a request whose parameters are strings or absent, the handler on the values of
  Express is the handler on strings: nothing throws, and the response and the cache
  write are the same.
\<close>

lemma combined_trips_request_strings:
  "all_scalar rq
   \<Longrightarrow> combined_trips_request rq cachedResult pool12go poolBookaway
       = combined_trips (strings_of rq) cachedResult pool12go poolBookaway"
  by (simp add: combined_trips_request_def combined_trips_def combinedResults_def parse_lists_scalar
      buildQuery_raw_scalar cacheKey_raw_scalar pageNum_raw_scalar limitNum_raw_scalar Let_def
      split: option.splits)


end
